theory Spec2Isabelle
  imports Main "HOL-Library.Word"
begin

unbundle bit_operations_syntax

section \<open>Values, buffers and exceptions\<close>

text \<open>
  A Node \<open>Buffer\<close> is a list of bytes. A JavaScript string is identified with its
  UTF-8 byte sequence, one \<open>char\<close> per byte, so \<open>Buffer.from(s, 'utf8')\<close> is
  \<open>utf8\<close> below. Values that arrive dynamically typed (a header, a token taken
  from a request body, a parsed payload) are \<open>json\<close> values, \<open>undefined\<close> included.
  Numbers are integers (millisecond timestamps).
\<close>

type_synonym byte = "8 word"
type_synonym buffer = "byte list"

datatype json =
    JUndefined
  | JNull
  | JBool bool
  | JNum int
  | JStr string
  | JArr "json list"
  | JObj "(string \<times> json) list"

datatype exn = TypeError | RangeError | MalformedToken | Error string

definition utf8 :: "string \<Rightarrow> buffer" where
  "utf8 s = map (\<lambda>c. of_nat (of_char c)) s"

section \<open>Node's base64 codec (\<open>Buffer.toString('base64')\<close>, \<open>Buffer.from(s, 'base64')\<close>)\<close>

definition base64_alphabet :: string where
  "base64_alphabet = ''ABCDEFGHIJKLMNOPQRSTUVWXYZabcdefghijklmnopqrstuvwxyz0123456789+/''"

definition base64_char :: "byte \<Rightarrow> char" where
  "base64_char i = base64_alphabet ! unat i"

text \<open>Standard base64 with padding: three bytes give four characters.\<close>

fun toString_base64 :: "buffer \<Rightarrow> string" where
  "toString_base64 (a # b # c # rest) =
     [base64_char (drop_bit 2 a),
      base64_char (push_bit 4 (a AND 3) OR drop_bit 4 b),
      base64_char (push_bit 2 (b AND 15) OR drop_bit 6 c),
      base64_char (c AND 63)] @ toString_base64 rest"
| "toString_base64 [a, b] =
     [base64_char (drop_bit 2 a),
      base64_char (push_bit 4 (a AND 3) OR drop_bit 4 b),
      base64_char (push_bit 2 (b AND 15)),
      CHR ''='']"
| "toString_base64 [a] =
     [base64_char (drop_bit 2 a),
      base64_char (push_bit 4 (a AND 3)),
      CHR ''='', CHR ''='']"
| "toString_base64 [] = []"

text \<open>
  Node's decoder is forgiving: it takes both the standard and the URL-safe alphabet,
  skips every other character, stops at the first \<open>=\<close> and never raises.
\<close>

definition unbase64 :: "char \<Rightarrow> byte option" where
  "unbase64 c =
     (let n = of_char c :: nat in
      if 65 \<le> n \<and> n \<le> 90 then Some (of_nat (n - 65))
      else if 97 \<le> n \<and> n \<le> 122 then Some (of_nat (n - 71))
      else if 48 \<le> n \<and> n \<le> 57 then Some (of_nat (n + 4))
      else if c = CHR ''+'' \<or> c = CHR ''-'' then Some 62
      else if c = CHR ''/'' \<or> c = CHR ''_'' then Some 63
      else None)"

fun base64_groups :: "byte list \<Rightarrow> buffer" where
  "base64_groups (a # b # c # d # rest) =
     [push_bit 2 a OR drop_bit 4 b,
      push_bit 4 (b AND 15) OR drop_bit 2 c,
      push_bit 6 (c AND 3) OR d] @ base64_groups rest"
| "base64_groups [a, b, c] =
     [push_bit 2 a OR drop_bit 4 b, push_bit 4 (b AND 15) OR drop_bit 2 c]"
| "base64_groups [a, b] = [push_bit 2 a OR drop_bit 4 b]"
| "base64_groups [a] = []"
| "base64_groups [] = []"

definition base64_sextets :: "string \<Rightarrow> byte list" where
  "base64_sextets s = List.map_filter unbase64 (takeWhile (\<lambda>c. c \<noteq> CHR ''='') s)"

definition from_base64 :: "string \<Rightarrow> buffer" where
  "from_base64 s = base64_groups (base64_sextets s)"

section \<open>utils/b64url.js\<close>

text \<open>\<open>s.replace(/x/g, y)\<close> for single characters \<open>x\<close> and \<open>y\<close>.\<close>

definition replace_all :: "char \<Rightarrow> char \<Rightarrow> string \<Rightarrow> string" where
  "replace_all x y s = map (\<lambda>c. if c = x then y else c) s"

text \<open>\<open>s.replace(/=+$/, '')\<close>: the trailing run of \<open>=\<close> is removed.\<close>

definition strip_padding :: "string \<Rightarrow> string" where
  "strip_padding s = rev (dropWhile (\<lambda>c. c = CHR ''='') (rev s))"

definition encode :: "buffer \<Rightarrow> string" where
  "encode buf =
     strip_padding (replace_all CHR ''/'' CHR ''_'' (replace_all CHR ''+'' CHR ''-'' (toString_base64 buf)))"

text \<open>\<open>while (str.length % 4) str += '='\<close>\<close>

function pad4 :: "string \<Rightarrow> string" where
  "pad4 str = (if length str mod 4 \<noteq> 0 then pad4 (str @ ''='') else str)"
  by pat_completeness auto

termination pad4
proof (relation "measure (\<lambda>s. (4 - length s mod 4) mod 4)")
  show "wf (measure (\<lambda>s::string. (4 - length s mod 4) mod 4))"
    by (rule wf_measure)
next
  fix str :: string
  assume nz: "length str mod 4 \<noteq> 0"
  have "length str mod 4 < 4" by simp
  then consider "length str mod 4 = 1" | "length str mod 4 = 2" | "length str mod 4 = 3"
    using nz by linarith
  then have "(4 - Suc (length str) mod 4) mod 4 < (4 - length str mod 4) mod 4"
    by cases (simp_all add: mod_Suc)
  then show "(str @ ''='', str) \<in> measure (\<lambda>s. (4 - length s mod 4) mod 4)"
    unfolding in_measure by simp
qed

text \<open>
  \<open>decode\<close> calls \<open>str.replace\<close> first, which is a \<open>TypeError\<close> on anything that is
  not a string.
\<close>

fun decode :: "json \<Rightarrow> exn + buffer" where
  "decode (JStr str) =
     Inr (from_base64 (pad4 (replace_all CHR ''_'' CHR ''/'' (replace_all CHR ''-'' CHR ''+'' str))))"
| "decode _ = Inl TypeError"

section \<open>Platform primitives\<close>

text \<open>
  The functions of Node and of the JavaScript runtime that the library calls are
  parameters of the model:
  \<^item> \<open>hmac_sha256 key msg\<close> is \<open>crypto.createHmac('sha256', key).update(msg).digest()\<close>;
  \<^item> \<open>timingSafeEqual\<close> is \<open>crypto.timingSafeEqual\<close>, which raises on buffers of
    different lengths;
  \<^item> \<open>json_parse\<close> is \<open>JSON.parse\<close> (\<open>None\<close> when it raises) and \<open>json_stringify\<close>
    is \<open>JSON.stringify\<close>;
  \<^item> \<open>utf8_toString\<close> is \<open>buf.toString('utf8')\<close>;
  \<^item> \<open>url_host\<close> is \<open>new URL(s).host\<close> (\<open>None\<close> when the constructor raises);
  \<^item> \<open>to_number\<close> is the numeric coercion of a string, an array or an object
    (\<open>None\<close> for \<open>NaN\<close>);
  \<^item> \<open>from_object\<close> is \<open>Buffer.from(v)\<close> for an array or an object \<open>v\<close>.
\<close>

record platform =
  hmac_sha256 :: "buffer \<Rightarrow> buffer \<Rightarrow> buffer"
  timingSafeEqual :: "buffer \<Rightarrow> buffer \<Rightarrow> exn + bool"
  json_parse :: "string \<Rightarrow> json option"
  json_stringify :: "json \<Rightarrow> string"
  utf8_toString :: "buffer \<Rightarrow> string"
  url_host :: "string \<Rightarrow> string option"
  to_number :: "json \<Rightarrow> int option"
  from_object :: "json \<Rightarrow> exn + buffer"

text \<open>Truthiness of a value, as \<open>if (v)\<close>, \<open>!v\<close>, \<open>v && w\<close> and \<open>v || w\<close> read it.\<close>

fun truthy :: "json \<Rightarrow> bool" where
  "truthy JUndefined = False"
| "truthy JNull = False"
| "truthy (JBool b) = b"
| "truthy (JNum n) = (n \<noteq> 0)"
| "truthy (JStr s) = (s \<noteq> [])"
| "truthy (JArr _) = True"
| "truthy (JObj _) = True"

text \<open>
  \<open>v[name]\<close> for an own property of an object, \<open>undefined\<close> when there is none.
  A later duplicate key wins, as in \<open>JSON.parse\<close>. Inherited members and the index
  and \<open>length\<close> properties of strings and arrays are not modelled; the callers
  below guard every access with \<open>v && v[name]\<close>, so \<open>v\<close> is never \<open>null\<close> or
  \<open>undefined\<close> here.
\<close>

fun get_prop :: "json \<Rightarrow> string \<Rightarrow> json" where
  "get_prop (JObj kvs) name = (case map_of (rev kvs) name of None \<Rightarrow> JUndefined | Some v \<Rightarrow> v)"
| "get_prop _ name = JUndefined"

text \<open>\<open>a || b\<close> and \<open>a && b\<close>.\<close>

definition js_or :: "json \<Rightarrow> json \<Rightarrow> json" where
  "js_or a b = (if truthy a then a else b)"

definition js_and :: "json \<Rightarrow> json \<Rightarrow> json" where
  "js_and a b = (if truthy a then b else a)"

text \<open>\<open>now > v\<close> for a number \<open>now\<close>: the right operand is coerced to a number.\<close>

fun js_gt :: "platform \<Rightarrow> int \<Rightarrow> json \<Rightarrow> bool" where
  "js_gt P now (JNum n) = (now > n)"
| "js_gt P now (JBool b) = (now > (if b then 1 else 0))"
| "js_gt P now JNull = (now > 0)"
| "js_gt P now JUndefined = False"
| "js_gt P now v = (case to_number P v of None \<Rightarrow> False | Some n \<Rightarrow> now > n)"

section \<open>utils/cryptoHelpers.js\<close>

text \<open>
  An argument of \<open>safeEqual\<close> is whatever the caller passes: a Buffer, or any other
  value.
\<close>

datatype js_arg = Buffer buffer | NotBuffer json

text \<open>
  \<open>Buffer.from(v)\<close> for a value that is not a Buffer: the UTF-8 bytes of a string, a
  \<open>TypeError\<close> on a number, a boolean, \<open>null\<close> and \<open>undefined\<close>.
\<close>

fun buffer_from :: "platform \<Rightarrow> json \<Rightarrow> exn + buffer" where
  "buffer_from P (JStr s) = Inr (utf8 s)"
| "buffer_from P (JArr vs) = from_object P (JArr vs)"
| "buffer_from P (JObj kvs) = from_object P (JObj kvs)"
| "buffer_from P _ = Inl TypeError"

text \<open>\<open>if (!Buffer.isBuffer(a)) a = Buffer.from(a)\<close>\<close>

fun as_buffer :: "platform \<Rightarrow> js_arg \<Rightarrow> exn + buffer" where
  "as_buffer P (Buffer b) = Inr b"
| "as_buffer P (NotBuffer v) = buffer_from P v"

definition safeEqual :: "platform \<Rightarrow> js_arg \<Rightarrow> js_arg \<Rightarrow> exn + bool" where
  "safeEqual P a b =
     (case as_buffer P a of
        Inl e \<Rightarrow> Inl e
      | Inr a' \<Rightarrow>
          (case as_buffer P b of
             Inl e \<Rightarrow> Inl e
           | Inr b' \<Rightarrow>
               if length a' \<noteq> length b' then Inr False
               else timingSafeEqual P a' b'))"

text \<open>
  The type \<open>Buffer|string\<close> that the documentation gives to the arguments of
  \<open>safeEqual\<close> and to a signing key, the bytes of such a value, and such a value as
  an argument of \<open>safeEqual\<close>.
\<close>

datatype bufstr = Buf buffer | Str string

fun to_buffer :: "bufstr \<Rightarrow> buffer" where
  "to_buffer (Buf b) = b"
| "to_buffer (Str s) = utf8 s"

fun arg_of :: "bufstr \<Rightarrow> js_arg" where
  "arg_of (Buf b) = Buffer b"
| "arg_of (Str s) = NotBuffer (JStr s)"

section \<open>token/stateless.js\<close>

text \<open>\<open>crypto.createHmac\<close> raises a \<open>TypeError\<close> on a key that is \<open>null\<close>.\<close>

definition createHmac_digest :: "platform \<Rightarrow> bufstr option \<Rightarrow> string \<Rightarrow> exn + buffer" where
  "createHmac_digest P key msg =
     (case key of None \<Rightarrow> Inl TypeError
      | Some k \<Rightarrow> Inr (hmac_sha256 P (to_buffer k) (utf8 msg)))"

definition signPayload :: "platform \<Rightarrow> string \<Rightarrow> bufstr option \<Rightarrow> exn + string" where
  "signPayload P payloadStr key =
     (case createHmac_digest P key payloadStr of
        Inl e \<Rightarrow> Inl e
      | Inr mac \<Rightarrow> Inr (encode (utf8 payloadStr @ utf8 ''.'' @ mac)))"

text \<open>\<open>buf.lastIndexOf(value)\<close>: the index of the last occurrence, or \<open>-1\<close>.\<close>

definition lastIndexOf :: "buffer \<Rightarrow> byte \<Rightarrow> int" where
  "lastIndexOf buf v =
     (case dropWhile (\<lambda>x. x \<noteq> v) (rev buf) of
        [] \<Rightarrow> - 1
      | _ # before \<Rightarrow> int (length before))"

record verified =
  ok :: bool
  payload :: json

definition rejected :: verified where
  "rejected = \<lparr>ok = False, payload = JNull\<rparr>"

text \<open>The body of the outer \<open>try\<close> block; \<open>Inl\<close> is an exception that leaves it.\<close>

definition verifySignedToken_try :: "platform \<Rightarrow> json \<Rightarrow> bufstr option \<Rightarrow> exn + verified" where
  "verifySignedToken_try P tokenStr key =
     (case decode tokenStr of
        Inl e \<Rightarrow> Inl e
      | Inr raw \<Rightarrow>
          let dotIdx = lastIndexOf raw 0x2E in
          if dotIdx \<le> 0 then Inr rejected
          else
            let payloadBuf = take (nat dotIdx) raw;
                macBuf = drop (nat (dotIdx + 1)) raw;
                payloadStr = utf8_toString P payloadBuf
            in case createHmac_digest P key payloadStr of
                 Inl e \<Rightarrow> Inl e
               | Inr expected \<Rightarrow>
                   if length macBuf \<noteq> length expected then Inr rejected
                   else case safeEqual P (Buffer macBuf) (Buffer expected) of
                          Inl e \<Rightarrow> Inl e
                        | Inr eq \<Rightarrow>
                            if \<not> eq then Inr rejected
                            else Inr \<lparr>ok = True,
                                      payload = (case json_parse P payloadStr of
                                                   None \<Rightarrow> JNull
                                                 | Some v \<Rightarrow> v)\<rparr>)"

text \<open>\<open>try { ... } catch (e) { return { ok: false, payload: null }; }\<close>\<close>

definition verifySignedToken :: "platform \<Rightarrow> json \<Rightarrow> bufstr option \<Rightarrow> exn + verified" where
  "verifySignedToken P tokenStr key =
     (case verifySignedToken_try P tokenStr key of
        Inl e \<Rightarrow> Inr rejected
      | Inr r \<Rightarrow> Inr r)"

text \<open>
  \<open>Date.now()\<close> is the argument \<open>now\<close>, in milliseconds. The sum \<open>iat + ttlMs\<close> is
  the integer sum, which is what the code computes as long as the two numbers and
  their sum are integers of magnitude at most \<open>2^53\<close>.
\<close>

definition createStatelessToken :: "platform \<Rightarrow> int \<Rightarrow> int \<Rightarrow> bufstr option \<Rightarrow> exn + string" where
  "createStatelessToken P now ttlMs key =
     (let iat = now;
          payload = json_stringify P (JObj [(''iat'', JNum iat), (''exp'', JNum (iat + ttlMs))])
      in signPayload P payload key)"

section \<open>token/mask.js\<close>

text \<open>
  Modelled from the spec: \<open>token/mask.js\<close> (\<open>makeMaskedToken\<close>, \<open>unmaskToken\<close>) is
  not among the sources; only its test and its callers are. The spec, section 4.2:
  generate \<open>pad\<close> of the same length as \<open>secret\<close> with the random primitive, compute
  \<open>masked[i] = pad[i] XOR secret[i]\<close>, encode \<open>pad || masked\<close> with the text codec. The
  pad drawn by the random primitive is the argument \<open>pad\<close>.
\<close>

definition makeMaskedToken :: "buffer \<Rightarrow> buffer \<Rightarrow> string" where
  "makeMaskedToken pad secret = encode (pad @ map2 (XOR) pad secret)"

text \<open>
  Modelled from the spec: decode the text; fail with MalformedToken if the decoded
  length is odd, zero, or otherwise not partitionable into two equal halves; split
  into \<open>pad\<close> and \<open>masked\<close>; recover \<open>secret[i] = pad[i] XOR masked[i]\<close>.
\<close>

definition unmaskToken :: "json \<Rightarrow> exn + buffer" where
  "unmaskToken token =
     (case decode token of
        Inl e \<Rightarrow> Inl e
      | Inr raw \<Rightarrow>
          if length raw = 0 \<or> length raw mod 2 \<noteq> 0 then Inl MalformedToken
          else let half = length raw div 2;
                   pad = take half raw;
                   masked = drop half raw
               in Inr (map2 (XOR) pad masked))"

section \<open>storage/memory.js\<close>

text \<open>
  The store is the \<open>Map\<close> together with the callbacks that \<open>setTimeout\<close> has
  pending, each with the time at which it is due and the key it deletes. Times are
  milliseconds, \<open>Date.now()\<close> is the argument \<open>now\<close>.
\<close>

record entry =
  val :: string
  exp :: "int option"

record memory_store =
  entries :: "string \<rightharpoonup> entry"
  timers :: "(int \<times> string) list"

definition createMemoryStore :: memory_store where
  "createMemoryStore = \<lparr>entries = Map.empty, timers = []\<rparr>"

definition store_get :: "int \<Rightarrow> string \<Rightarrow> memory_store \<Rightarrow> string option \<times> memory_store" where
  "store_get now k st =
     (case entries st k of
        None \<Rightarrow> (None, st)
      | Some e \<Rightarrow>
          if (case exp e of None \<Rightarrow> False | Some x \<Rightarrow> x \<noteq> 0 \<and> now > x)
          then (None, st\<lparr>entries := (entries st)(k := None)\<rparr>)
          else (Some (val e), st))"

text \<open>
  Node's \<open>setTimeout\<close> replaces a delay below 1 or above \<open>2^31 - 1\<close> by 1.
\<close>

definition setTimeout_delay :: "int \<Rightarrow> int" where
  "setTimeout_delay d = (if d < 1 \<or> d > 2147483647 then 1 else d)"

definition store_set :: "int \<Rightarrow> string \<Rightarrow> string \<Rightarrow> int \<Rightarrow> memory_store \<Rightarrow> memory_store" where
  "store_set now k v ttlSec st =
     (let exp = (if ttlSec \<noteq> 0 then Some (now + ttlSec * 1000) else None);
          st' = st\<lparr>entries := (entries st)(k \<mapsto> \<lparr>val = v, exp = exp\<rparr>)\<rparr>
      in if ttlSec \<noteq> 0
         then st'\<lparr>timers := timers st' @ [(now + setTimeout_delay (ttlSec * 1000 + 100), k)]\<rparr>
         else st')"

definition store_del :: "string \<Rightarrow> memory_store \<Rightarrow> memory_store" where
  "store_del k st = st\<lparr>entries := (entries st)(k := None)\<rparr>"

text \<open>
  The event loop at time \<open>now\<close>: every pending callback that is due runs its
  \<open>map.delete(k)\<close> and is gone; the others stay pending.
\<close>

definition run_timers :: "int \<Rightarrow> memory_store \<Rightarrow> memory_store" where
  "run_timers now st =
     \<lparr>entries = fold (\<lambda>(due, k) m. m(k := None)) (filter (\<lambda>(due, k). due \<le> now) (timers st)) (entries st),
      timers = filter (\<lambda>(due, k). \<not> due \<le> now) (timers st)\<rparr>"

section \<open>middleware.js\<close>

record cookie_options =
  httpOnly :: bool
  secure :: bool
  sameSite :: string
  maxAge :: int
  path :: string

text \<open>
  A storage adapter as \<open>verify\<close> sees it: its \<open>get\<close> method, if it has one, with
  the value it resolves to (or the exception it rejects with).
\<close>

record store =
  get :: "(json \<Rightarrow> exn + json) option"

record opts =
  cookieName :: string
  cookieSidName :: string
  headerName :: string
  fieldName :: string
  store :: "store option"
  ttl :: int
  secretLen :: nat
  mask_opt :: bool
  cookieOptions :: cookie_options
  originCheck :: bool
  allowedMethods :: "string list"
  stateless :: bool
  statelessKey :: "bufstr option"
  statelessTTL :: int

text \<open>
  \<open>DEFAULTS\<close>. Its \<open>store\<close> is the memory store created when the module is loaded,
  passed in as \<open>default_store\<close>.
\<close>

definition DEFAULTS :: "store \<Rightarrow> opts" where
  "DEFAULTS default_store =
     \<lparr>cookieName = ''CSRF_PLUS_TOKEN'',
      cookieSidName = ''CSRF_PLUS_SID'',
      headerName = ''x-csrf-plus'',
      fieldName = ''_csrf'',
      store = Some default_store,
      ttl = 60 * 60,
      secretLen = 32,
      mask_opt = True,
      cookieOptions = \<lparr>httpOnly = False, secure = True, sameSite = ''Lax'',
                        maxAge = 3600 * 1000, path = ''/''\<rparr>,
      originCheck = True,
      allowedMethods = [''GET'', ''HEAD'', ''OPTIONS''],
      stateless = False,
      statelessKey = None,
      statelessTTL = 60 * 60 * 1000\<rparr>"

text \<open>
  The options a caller passes: \<open>None\<close> for a key that is not in \<open>userOpts\<close>. A key
  that is there overrides the default, also with \<open>null\<close> (a \<open>store\<close> or a
  \<open>statelessKey\<close> that is \<open>Some None\<close>).
\<close>

record user_opts =
  u_cookieName :: "string option"
  u_cookieSidName :: "string option"
  u_headerName :: "string option"
  u_fieldName :: "string option"
  u_store :: "store option option"
  u_ttl :: "int option"
  u_secretLen :: "nat option"
  u_mask :: "bool option"
  u_cookieOptions :: "cookie_options option"
  u_originCheck :: "bool option"
  u_allowedMethods :: "string list option"
  u_stateless :: "bool option"
  u_statelessKey :: "bufstr option option"
  u_statelessTTL :: "int option"

definition override :: "'a \<Rightarrow> 'a option \<Rightarrow> 'a" where
  "override d u = (case u of None \<Rightarrow> d | Some x \<Rightarrow> x)"

text \<open>\<open>Object.assign({}, DEFAULTS, userOpts)\<close>\<close>

definition assign :: "opts \<Rightarrow> user_opts \<Rightarrow> opts" where
  "assign d u =
     \<lparr>cookieName = override (cookieName d) (u_cookieName u),
      cookieSidName = override (cookieSidName d) (u_cookieSidName u),
      headerName = override (headerName d) (u_headerName u),
      fieldName = override (fieldName d) (u_fieldName u),
      store = override (store d) (u_store u),
      ttl = override (ttl d) (u_ttl u),
      secretLen = override (secretLen d) (u_secretLen u),
      mask_opt = override (mask_opt d) (u_mask u),
      cookieOptions = override (cookieOptions d) (u_cookieOptions u),
      originCheck = override (originCheck d) (u_originCheck u),
      allowedMethods = override (allowedMethods d) (u_allowedMethods u),
      stateless = override (stateless d) (u_stateless u),
      statelessKey = override (statelessKey d) (u_statelessKey u),
      statelessTTL = override (statelessTTL d) (u_statelessTTL u)\<rparr>"

text \<open>\<open>!opts.store || !opts.store.get\<close>\<close>

definition no_store_get :: "opts \<Rightarrow> bool" where
  "no_store_get opts = (case store opts of None \<Rightarrow> True | Some s \<Rightarrow> get s = None)"

text \<open>\<open>!opts.statelessKey\<close>: \<open>null\<close> and the empty string are falsy, a Buffer is not.\<close>

fun no_key :: "bufstr option \<Rightarrow> bool" where
  "no_key None = True"
| "no_key (Some (Str s)) = (s = [])"
| "no_key (Some (Buf b)) = False"

text \<open>
  The bundle \<open>{ middleware, verify, adapters }\<close> that \<open>createMiddleware\<close> returns is
  the configuration its closures have captured.
\<close>

record csrf_bundle =
  bundle_opts :: opts

definition createMiddleware :: "store \<Rightarrow> user_opts \<Rightarrow> exn + csrf_bundle" where
  "createMiddleware default_store userOpts =
     (let opts = assign (DEFAULTS default_store) userOpts
      in if \<not> stateless opts \<and> no_store_get opts
           then Inl (Error ''store required when stateless=false.'')
         else if stateless opts \<and> no_key (statelessKey opts)
           then Inl (Error ''statelessKey required when stateless=true'')
         else Inr \<lparr>bundle_opts = opts\<rparr>)"

subsection \<open>Requests\<close>

text \<open>
  What \<open>verify\<close> reads of an Express request. Header names are lower-case, as Node
  delivers them; \<open>body\<close>, \<open>query\<close>, \<open>session\<close> and \<open>cookies\<close> are \<open>JUndefined\<close> when
  no earlier middleware has set them.
\<close>

record request =
  http_method :: string
  headers :: "string \<rightharpoonup> string"
  body :: json
  query :: json
  session :: json
  cookies :: json

definition to_lower :: "char \<Rightarrow> char" where
  "to_lower c =
     (let n = of_char c :: nat in if 65 \<le> n \<and> n \<le> 90 then char_of (n + 32) else c)"

definition header :: "request \<Rightarrow> string \<Rightarrow> json" where
  "header req name = (case headers req name of None \<Rightarrow> JUndefined | Some v \<Rightarrow> JStr v)"

text \<open>
  Express's \<open>req.get(name)\<close>: the name is lower-cased, and \<open>referer\<close> and
  \<open>referrer\<close> read \<open>headers.referrer || headers.referer\<close>.
\<close>

definition req_get :: "request \<Rightarrow> string \<Rightarrow> json" where
  "req_get req name =
     (let lc = map to_lower name
      in if lc = ''referer'' \<or> lc = ''referrer''
         then js_or (header req ''referrer'') (header req ''referer'')
         else header req lc)"

datatype response = Next | Send nat string

subsection \<open>\<open>verify\<close>\<close>

text \<open>\<open>try { ok = new URL(s).host === host } catch (e) { ok = false; }\<close>\<close>

definition same_host :: "platform \<Rightarrow> json \<Rightarrow> json \<Rightarrow> bool" where
  "same_host P s host =
     (case s of
        JStr u \<Rightarrow> (case url_host P u of None \<Rightarrow> False | Some h \<Rightarrow> JStr h = host)
      | _ \<Rightarrow> False)"

definition origin_ok :: "platform \<Rightarrow> request \<Rightarrow> bool" where
  "origin_ok P req =
     (let origin = req_get req ''origin'';
          referer = req_get req ''referer'';
          host = req_get req ''host''
      in if truthy origin then same_host P origin host
         else if truthy referer then same_host P referer host
         else False)"

definition submitted_token :: "opts \<Rightarrow> request \<Rightarrow> json" where
  "submitted_token opts req =
     js_or (js_or (js_or (req_get req (headerName opts))
                         (js_and (body req) (get_prop (body req) (fieldName opts))))
                  (js_and (query req) (get_prop (query req) (fieldName opts))))
           JNull"

definition session_key :: "opts \<Rightarrow> request \<Rightarrow> json" where
  "session_key opts req =
     js_or (js_or (js_and (session req) (get_prop (session req) ''id''))
                  (req_get req ''x-session-id''))
           (js_and (cookies req) (get_prop (cookies req) (cookieSidName opts)))"

text \<open>\<open>payload && payload.exp && Date.now() > payload.exp\<close>\<close>

definition expired :: "platform \<Rightarrow> int \<Rightarrow> json \<Rightarrow> bool" where
  "expired P now p =
     (truthy p \<and> truthy (get_prop p ''exp'') \<and> js_gt P now (get_prop p ''exp''))"

definition verify_stateless :: "platform \<Rightarrow> opts \<Rightarrow> int \<Rightarrow> json \<Rightarrow> exn + response" where
  "verify_stateless P opts now token =
     (case verifySignedToken P token (statelessKey opts) of
        Inl e \<Rightarrow> Inl e
      | Inr r \<Rightarrow>
          if \<not> ok r then Inr (Send 403 ''CSRF token invalid.'')
          else if expired P now (payload r) then Inr (Send 403 ''CSRF token expired.'')
          else Inr Next)"

text \<open>\<open>opts.store.get(key)\<close>; a missing store or method is a \<open>TypeError\<close>.\<close>

definition store_lookup :: "opts \<Rightarrow> json \<Rightarrow> exn + json" where
  "store_lookup opts key =
     (case store opts of
        None \<Rightarrow> Inl TypeError
      | Some s \<Rightarrow> (case get s of None \<Rightarrow> Inl TypeError | Some g \<Rightarrow> g key))"

definition verify_stateful :: "platform \<Rightarrow> opts \<Rightarrow> request \<Rightarrow> json \<Rightarrow> exn + response" where
  "verify_stateful P opts req token =
     (let key = session_key opts req in
      if \<not> truthy key then Inr (Send 403 ''CSRF session missing.'')
      else case store_lookup opts key of
        Inl e \<Rightarrow> Inl e
      | Inr storedB64 \<Rightarrow>
          if \<not> truthy storedB64 then Inr (Send 403 ''CSRF secret missing.'')
          else case decode storedB64 of
            Inl e \<Rightarrow> Inl e
          | Inr secret \<Rightarrow>
              (case (if mask_opt opts then unmaskToken token else decode token) of
                 Inl e \<Rightarrow> Inr (Send 403 ''CSRF token malformed.'')
               | Inr provided \<Rightarrow>
                   if length provided \<noteq> length secret
                     then Inr (Send 403 ''CSRF token length mismatch.'')
                   else case safeEqual P (Buffer provided) (Buffer secret) of
                     Inl e \<Rightarrow> Inl e
                   | Inr eq \<Rightarrow>
                       if \<not> eq then Inr (Send 403 ''CSRF token mismatch.'')
                       else Inr Next))"

text \<open>The body of the \<open>try\<close> block of \<open>verify\<close>.\<close>

definition verify_try :: "platform \<Rightarrow> opts \<Rightarrow> int \<Rightarrow> request \<Rightarrow> exn + response" where
  "verify_try P opts now req =
     (if http_method req \<in> set (allowedMethods opts) then Inr Next
      else if originCheck opts \<and> \<not> origin_ok P req
        then Inr (Send 403 ''CSRF: origin/referrer mismatch.'')
      else
        let token = submitted_token opts req in
        if \<not> truthy token then Inr (Send 403 ''CSRF token missing.'')
        else if stateless opts then verify_stateless P opts now token
        else verify_stateful P opts req token)"

text \<open>\<open>catch (error) { return res.status(500).send('CSRF verification error.'); }\<close>\<close>

definition verify :: "platform \<Rightarrow> opts \<Rightarrow> int \<Rightarrow> request \<Rightarrow> response" where
  "verify P opts now req =
     (case verify_try P opts now req of
        Inl e \<Rightarrow> Send 500 ''CSRF verification error.''
      | Inr r \<Rightarrow> r)"

section \<open>Node's values on the inputs of the examples\<close>

text \<open>
  \<open>crypto.timingSafeEqual\<close> raises a \<open>RangeError\<close> on buffers of different lengths
  and compares the bytes otherwise.
\<close>

definition node_timingSafeEqual :: "buffer \<Rightarrow> buffer \<Rightarrow> exn + bool" where
  "node_timingSafeEqual a b = (if length a \<noteq> length b then Inl RangeError else Inr (a = b))"

text \<open>\<open>buf.toString('utf8')\<close> on ASCII bytes.\<close>

definition ascii_toString :: "buffer \<Rightarrow> string" where
  "ascii_toString buf = map (\<lambda>b. char_of (unat b)) buf"

text \<open>The signing key of the repository's tests.\<close>

definition test_key :: bufstr where
  "test_key = Str ''test-signing-key-12345''"

text \<open>
  Six payload strings and the HMAC-SHA256 of each under \<open>test_key\<close>: the payload
  that \<open>createStatelessToken\<close> writes at \<open>Date.now() = 1700000000000\<close> with a TTL
  of one hour; the one it writes six milliseconds later, whose MAC has the byte
  \<open>0x2E\<close> at index 18; the one it writes at \<open>Date.now() = 1700000000000\<close> with
  \<open>ttlMs = -1700000000000\<close>; the one it writes at that time with \<open>ttlMs = -1000\<close>;
  the one it writes one millisecond later with \<open>ttlMs = -1000\<close>, whose MAC has the
  byte \<open>0x2E\<close> at index 17; and a string that is not JSON. Each token is the text of
  \<open>payload || 0x2E || mac\<close> in URL-safe base64.
\<close>

definition payload_valid :: string where
  \<open>payload_valid = ''{"iat":1700000000000,"exp":1700003600000}''\<close>

definition mac_valid :: buffer where
  "mac_valid = [0x1C, 0x87, 0x34, 0xFD, 0x81, 0x6C, 0x0D, 0xCA, 0xEB, 0x9E, 0x00, 0xD1, 0x24, 0x0C, 0xB4, 0xFE, 0xB5, 0x80, 0xCA, 0x6A, 0x82, 0xA7, 0x30, 0x15, 0x65, 0x09, 0x65, 0xA9, 0xDF, 0x8C, 0xD9, 0x3C]"

definition token_valid :: string where
  "token_valid = ''eyJpYXQiOjE3MDAwMDAwMDAwMDAsImV4cCI6MTcwMDAwMzYwMDAwMH0uHIc0_YFsDcrrngDRJAy0_rWAymqCpzAVZQllqd-M2Tw''"

definition payload_sep :: string where
  \<open>payload_sep = ''{"iat":1700000000006,"exp":1700003600006}''\<close>

definition mac_sep :: buffer where
  "mac_sep = [0xE5, 0xE7, 0xC2, 0xC1, 0x45, 0x4C, 0x15, 0xCD, 0x19, 0x78, 0xDB, 0xB5, 0x40, 0x35, 0xBE, 0x6E, 0x96, 0x09, 0x2E, 0x29, 0x87, 0xCE, 0x41, 0x30, 0x36, 0x36, 0x48, 0xB2, 0x07, 0x56, 0x39, 0x05]"

definition token_sep :: string where
  "token_sep = ''eyJpYXQiOjE3MDAwMDAwMDAwMDYsImV4cCI6MTcwMDAwMzYwMDAwNn0u5efCwUVMFc0ZeNu1QDW-bpYJLimHzkEwNjZIsgdWOQU''"

definition payload_zero_exp :: string where
  \<open>payload_zero_exp = ''{"iat":1700000000000,"exp":0}''\<close>

definition mac_zero_exp :: buffer where
  "mac_zero_exp = [0x1F, 0xAD, 0x3F, 0x5D, 0x46, 0x18, 0xD5, 0x35, 0x52, 0xB2, 0xD2, 0xFF, 0xB3, 0x87, 0xE5, 0xE7, 0xB7, 0x24, 0xBC, 0x07, 0x19, 0x07, 0xE3, 0xA8, 0x9F, 0x54, 0x9F, 0x35, 0x43, 0x0F, 0xC9, 0x9F]"

definition token_zero_exp :: string where
  "token_zero_exp = ''eyJpYXQiOjE3MDAwMDAwMDAwMDAsImV4cCI6MH0uH60_XUYY1TVSstL_s4fl57ckvAcZB-Oon1SfNUMPyZ8''"

definition payload_expired :: string where
  \<open>payload_expired = ''{"iat":1700000000000,"exp":1699999999000}''\<close>

definition mac_expired :: buffer where
  "mac_expired = [0xC0, 0xD7, 0x35, 0x06, 0xA0, 0x22, 0xF9, 0x9E, 0xC1, 0x4B, 0x65, 0x13, 0xFA, 0xEF, 0x96, 0x4A, 0xFB, 0xF2, 0xFD, 0x4C, 0x5E, 0x61, 0x00, 0xF5, 0xBC, 0x4F, 0xB8, 0x74, 0xE7, 0x52, 0x51, 0xE2]"

definition token_expired :: string where
  "token_expired = ''eyJpYXQiOjE3MDAwMDAwMDAwMDAsImV4cCI6MTY5OTk5OTk5OTAwMH0uwNc1BqAi-Z7BS2UT-u-WSvvy_UxeYQD1vE-4dOdSUeI''"

definition payload_expired_sep :: string where
  \<open>payload_expired_sep = ''{"iat":1700000000001,"exp":1699999999001}''\<close>

definition mac_expired_sep :: buffer where
  "mac_expired_sep = [0x60, 0x60, 0xBE, 0xB4, 0x00, 0x13, 0xD3, 0x89, 0x36, 0x2F, 0x19, 0x53, 0x19, 0xF0, 0x75, 0x2F, 0xB8, 0x2E, 0x93, 0x22, 0x1A, 0x7A, 0x2D, 0x36, 0xC4, 0xAC, 0x48, 0x24, 0xB3, 0x32, 0x5C, 0x66]"

definition token_expired_sep :: string where
  "token_expired_sep = ''eyJpYXQiOjE3MDAwMDAwMDAwMDEsImV4cCI6MTY5OTk5OTk5OTAwMX0uYGC-tAAT04k2LxlTGfB1L7gukyIaei02xKxIJLMyXGY''"

definition payload_not_json :: string where
  "payload_not_json = ''not json''"

definition mac_not_json :: buffer where
  "mac_not_json = [0x20, 0x38, 0xA0, 0xD1, 0x12, 0xDF, 0xF9, 0x32, 0x46, 0x8A, 0xD9, 0xC8, 0x19, 0xB5, 0x46, 0xDD, 0x2C, 0x5F, 0x52, 0xD3, 0x4F, 0xF7, 0xD7, 0x70, 0x14, 0x16, 0xE7, 0x82, 0x95, 0x62, 0x4A, 0x69]"

definition token_not_json :: string where
  "token_not_json = ''bm90IGpzb24uIDig0RLf-TJGitnIGbVG3SxfUtNP99dwFBbngpViSmk''"

definition node_hmac :: "buffer \<Rightarrow> buffer \<Rightarrow> buffer" where
  "node_hmac key msg =
     (if key = to_buffer test_key \<and> msg = utf8 payload_valid then mac_valid
      else if key = to_buffer test_key \<and> msg = utf8 payload_sep then mac_sep
      else if key = to_buffer test_key \<and> msg = utf8 payload_zero_exp then mac_zero_exp
      else if key = to_buffer test_key \<and> msg = utf8 payload_expired then mac_expired
      else if key = to_buffer test_key \<and> msg = utf8 payload_expired_sep then mac_expired_sep
      else if key = to_buffer test_key \<and> msg = utf8 payload_not_json then mac_not_json
      else replicate 32 0)"

definition time_payload :: "int \<Rightarrow> int \<Rightarrow> json" where
  "time_payload issued expires = JObj [(''iat'', JNum issued), (''exp'', JNum expires)]"

definition node_json_parse :: "string \<Rightarrow> json option" where
  "node_json_parse s =
     (if s = payload_valid then Some (time_payload 1700000000000 1700003600000)
      else if s = payload_sep then Some (time_payload 1700000000006 1700003600006)
      else if s = payload_zero_exp then Some (time_payload 1700000000000 0)
      else if s = payload_expired then Some (time_payload 1700000000000 1699999999000)
      else if s = payload_expired_sep then Some (time_payload 1700000000001 1699999999001)
      else None)"

definition node_json_stringify :: "json \<Rightarrow> string" where
  "node_json_stringify v =
     (if v = time_payload 1700000000000 1700003600000 then payload_valid
      else if v = time_payload 1700000000006 1700003600006 then payload_sep
      else if v = time_payload 1700000000000 0 then payload_zero_exp
      else if v = time_payload 1700000000000 1699999999000 then payload_expired
      else if v = time_payload 1700000000001 1699999999001 then payload_expired_sep
      else ''null'')"

definition node_url_host :: "string \<Rightarrow> string option" where
  "node_url_host s =
     (if s = ''https://shop.example'' then Some ''shop.example''
      else if s = ''https://evil.example/page'' then Some ''evil.example''
      else None)"

text \<open>
  A platform that takes Node's values on the inputs above. Elsewhere it is a
  placeholder: the zero MAC, a parse error, \<open>null\<close>, an invalid URL, \<open>NaN\<close>, a
  \<open>TypeError\<close>.
\<close>

definition node_platform :: platform where
  "node_platform =
     \<lparr>hmac_sha256 = node_hmac,
      timingSafeEqual = node_timingSafeEqual,
      json_parse = node_json_parse,
      json_stringify = node_json_stringify,
      utf8_toString = ascii_toString,
      url_host = node_url_host,
      to_number = (\<lambda>v. None),
      from_object = (\<lambda>v. Inl TypeError)\<rparr>"

text \<open>
  The in-memory store as a storage adapter: what \<open>get\<close> resolves to at time \<open>now\<close>
  in state \<open>st\<close>.
\<close>

definition memory_adapter :: "int \<Rightarrow> memory_store \<Rightarrow> store" where
  "memory_adapter now st =
     \<lparr>get = Some (\<lambda>k. case k of
                          JStr s \<Rightarrow> Inr (case fst (store_get now s st) of
                                             None \<Rightarrow> JNull
                                           | Some v \<Rightarrow> JStr v)
                        | _ \<Rightarrow> Inr JNull)\<rparr>"

text \<open>\<open>createMiddleware()\<close> with no options, and a request with nothing in it.\<close>

definition no_user_opts :: user_opts where
  "no_user_opts =
     \<lparr>u_cookieName = None, u_cookieSidName = None, u_headerName = None, u_fieldName = None,
      u_store = None, u_ttl = None, u_secretLen = None, u_mask = None,
      u_cookieOptions = None, u_originCheck = None, u_allowedMethods = None,
      u_stateless = None, u_statelessKey = None, u_statelessTTL = None\<rparr>"

definition bare_request :: "string \<Rightarrow> request" where
  "bare_request m =
     \<lparr>http_method = m, headers = Map.empty, body = JUndefined, query = JUndefined,
      session = JUndefined, cookies = JUndefined\<rparr>"

text \<open>The options of the repository's stateless test, with and without the origin check.\<close>

definition stateless_opts :: "bool \<Rightarrow> opts" where
  "stateless_opts check =
     (assign (DEFAULTS (memory_adapter 0 createMemoryStore))
        (no_user_opts\<lparr>u_stateless := Some True, u_statelessKey := Some (Some test_key),
                       u_originCheck := Some check\<rparr>))"

text \<open>
  A \<open>POST\<close> to \<open>shop.example\<close> from a page of \<open>shop.example\<close>, with the token in
  the \<open>x-csrf-plus\<close> header.
\<close>

definition token_request :: "string \<Rightarrow> request" where
  "token_request tok =
     \<lparr>http_method = ''POST'',
      headers = [''host'' \<mapsto> ''shop.example'', ''origin'' \<mapsto> ''https://shop.example'',
                 ''x-csrf-plus'' \<mapsto> tok],
      body = JUndefined, query = JUndefined, session = JUndefined, cookies = JUndefined\<rparr>"

text \<open>
  The same request from a client that sends no \<open>Origin\<close> and no \<open>Referer\<close>, and
  names the page it comes from in a header spelled \<open>Referrer\<close>.
\<close>

definition referrer_request :: "string \<Rightarrow> request" where
  "referrer_request tok =
     \<lparr>http_method = ''POST'',
      headers = [''host'' \<mapsto> ''shop.example'', ''referrer'' \<mapsto> ''https://shop.example'',
                 ''x-csrf-plus'' \<mapsto> tok],
      body = JUndefined, query = JUndefined, session = JUndefined, cookies = JUndefined\<rparr>"

text \<open>
  The same request from a client that sends neither \<open>Origin\<close> nor \<open>Referer\<close>, under
  any spelling.
\<close>

definition headerless_request :: "string \<Rightarrow> request" where
  "headerless_request tok =
     \<lparr>http_method = ''POST'',
      headers = [''host'' \<mapsto> ''shop.example'', ''x-csrf-plus'' \<mapsto> tok],
      body = JUndefined, query = JUndefined, session = JUndefined, cookies = JUndefined\<rparr>"

section \<open>The text codec round-trip\<close>

lemma pad4_eq: "pad4 s = s @ replicate ((4 - length s mod 4) mod 4) CHR ''=''"
proof (induction s rule: pad4.induct)
  case (1 str)
  show ?case
  proof (cases "length str mod 4 = 0")
    case True
    then show ?thesis by (simp add: pad4.simps [of str])
  next
    case False
    have "length str mod 4 < 4" by simp
    then consider "length str mod 4 = 1" | "length str mod 4 = 2" | "length str mod 4 = 3"
      using False by linarith
    then have "Suc ((4 - Suc (length str) mod 4) mod 4) = (4 - length str mod 4) mod 4"
      by cases (simp_all add: mod_Suc)
    then have "''='' @ replicate ((4 - Suc (length str) mod 4) mod 4) CHR ''=''
         = replicate ((4 - length str mod 4) mod 4) CHR ''=''"
      by (metis append_Cons append_Nil replicate_Suc)
    with False 1 show ?thesis
      by (simp add: pad4.simps [of str])
  qed
qed

lemma and3_take_bit: "(a::byte) AND 3 = take_bit 2 a"
  using take_bit_eq_mask [of 2 a] by (simp add: mask_eq_exp_minus_1)

lemma and15_take_bit: "(a::byte) AND 15 = take_bit 4 a"
  using take_bit_eq_mask [of 4 a] by (simp add: mask_eq_exp_minus_1)

lemma and63_take_bit: "(a::byte) AND 63 = take_bit 6 a"
  using take_bit_eq_mask [of 6 a] by (simp add: mask_eq_exp_minus_1)

lemma Suc_Suc_diff2: "2 \<le> n \<Longrightarrow> Suc (Suc (n - 2)) = n"
  by simp


lemma regroup_first:
  "push_bit 2 (drop_bit 2 (a::byte)) OR drop_bit 4 (push_bit 4 (a AND 3) OR drop_bit 4 b) = a"
  unfolding and3_take_bit
proof (rule bit_word_eqI)
  fix n assume "n < LENGTH(8)"
  then show "bit (push_bit 2 (drop_bit 2 a) OR drop_bit 4 (push_bit 4 (take_bit 2 a) OR drop_bit 4 b)) n = bit a n"
    by (cases "2 \<le> n") (auto simp add: bit_simps Suc_Suc_diff2)
qed

lemma regroup_first_only:
  "push_bit 2 (drop_bit 2 (a::byte)) OR drop_bit 4 (push_bit 4 (a AND 3) :: byte) = a"
  unfolding and3_take_bit
proof (rule bit_word_eqI)
  fix n assume "n < LENGTH(8)"
  then show "bit (push_bit 2 (drop_bit 2 a) OR drop_bit 4 (push_bit 4 (take_bit 2 a))) n = bit a n"
    by (cases "2 \<le> n") (auto simp add: bit_simps Suc_Suc_diff2)
qed

lemma regroup_second:
  "push_bit 4 ((push_bit 4 (a AND 3) OR drop_bit 4 b) AND 15)
     OR drop_bit 2 (push_bit 2 (b AND 15) OR drop_bit 6 c) = (b::byte)"
  unfolding and3_take_bit and15_take_bit
proof (rule bit_word_eqI)
  fix n assume "n < LENGTH(8)"
  then show "bit (push_bit 4 (take_bit 4 (push_bit 4 (take_bit 2 a) OR drop_bit 4 b))
     OR drop_bit 2 (push_bit 2 (take_bit 4 b) OR drop_bit 6 c)) n = bit b n"
    by (cases "4 \<le> n") (auto simp add: bit_simps Suc_Suc_diff2)
qed

lemma regroup_second_only:
  "push_bit 4 ((push_bit 4 (a AND 3) OR drop_bit 4 b) AND 15)
     OR drop_bit 2 (push_bit 2 (b AND 15) :: byte) = (b::byte)"
  unfolding and3_take_bit and15_take_bit
proof (rule bit_word_eqI)
  fix n assume "n < LENGTH(8)"
  then show "bit (push_bit 4 (take_bit 4 (push_bit 4 (take_bit 2 a) OR drop_bit 4 b))
     OR drop_bit 2 (push_bit 2 (take_bit 4 b))) n = bit b n"
    by (cases "4 \<le> n") (auto simp add: bit_simps Suc_Suc_diff2)
qed

lemma regroup_third:
  "push_bit 6 ((push_bit 2 (b AND 15) OR drop_bit 6 c) AND 3) OR (c AND 63) = (c::byte)"
  unfolding and3_take_bit and15_take_bit and63_take_bit
proof (rule bit_word_eqI)
  fix n assume "n < LENGTH(8)"
  then show "bit (push_bit 6 (take_bit 2 (push_bit 2 (take_bit 4 b) OR drop_bit 6 c)) OR take_bit 6 c) n = bit c n"
    by (cases "6 \<le> n") (auto simp add: bit_simps Suc_Suc_diff2)
qed

lemma sextet_bound: "take_bit 6 (x::byte) = x \<Longrightarrow> unat x < 64"
proof -
  assume a: "take_bit 6 x = x"
  have "unat (take_bit 6 x) = take_bit 6 (unat x)"
    by (rule unsigned_take_bit_eq)
  moreover have "take_bit 6 (unat x) < 2 ^ 6"
    by (rule take_bit_nat_less_exp)
  ultimately show ?thesis using a by simp
qed

lemma length_base64_alphabet: "length base64_alphabet = 64"
  by (simp add: base64_alphabet_def)

lemma base64_alphabet_ranges:
  "base64_alphabet = map char_of [65..<91::nat] @ map char_of [97..<123::nat]
      @ map char_of [48..<58::nat] @ ''+/''"
  by (simp add: base64_alphabet_def upt_rec char_of_def bit_Suc_0_iff)

lemma unbase64_alphabet:
  assumes "n < 64"
  shows "unbase64 (base64_alphabet ! n) = Some (of_nat n)"
proof -
  consider "n < 26" | "26 \<le> n" "n < 52" | "52 \<le> n" "n < 62" | "n = 62" | "n = 63"
    using assms by linarith
  then show ?thesis
  proof cases
    case 1
    then have "base64_alphabet ! n = char_of (65 + n)"
      by (simp add: base64_alphabet_ranges nth_append del: upt_rec_numeral)
    with 1 show ?thesis by (simp add: unbase64_def)
  next
    case 2
    then have "\<not> n < 26" "n - 26 < 26" by simp_all
    then have "base64_alphabet ! n = char_of (97 + (n - 26))"
      by (simp add: base64_alphabet_ranges nth_append del: upt_rec_numeral)
    moreover have "97 + (n - 26) = 71 + n" using 2 by simp
    ultimately show ?thesis using 2 by (simp add: unbase64_def)
  next
    case 3
    then have "\<not> n < 26" "\<not> n - 26 < 26" "n - 26 - 26 < 10" "n - 26 - 26 = n - 52"
      by simp_all
    then have "base64_alphabet ! n = char_of (48 + (n - 52))"
      by (simp add: base64_alphabet_ranges nth_append del: upt_rec_numeral)
    moreover have "48 + (n - 52) = n - 4" "n - 4 + 4 = n" "\<not> 65 \<le> n - 4" "48 \<le> n - 4" "n - 4 \<le> 57"
      using 3 by simp_all
    ultimately show ?thesis by (simp add: unbase64_def Let_def)
  next
    case 4
    then show ?thesis by (simp add: base64_alphabet_def unbase64_def)
  next
    case 5
    then show ?thesis by (simp add: base64_alphabet_def unbase64_def)
  qed
qed

lemma unbase64_base64_char: "unat x < 64 \<Longrightarrow> unbase64 (base64_char x) = Some x"
  using unbase64_alphabet [of "unat x"] by (simp add: base64_char_def)

lemma base64_char_in_alphabet: "unat x < 64 \<Longrightarrow> base64_char x \<in> set base64_alphabet"
  by (simp add: base64_char_def length_base64_alphabet)

lemma alphabet_no_specials:
  "CHR ''='' \<notin> set base64_alphabet" "CHR ''-'' \<notin> set base64_alphabet"
  "CHR ''_'' \<notin> set base64_alphabet"
  by (simp_all add: base64_alphabet_def)

lemma sextet1: "unat (drop_bit 2 (a::byte)) < 64"
  by (rule sextet_bound, rule bit_word_eqI) (auto simp add: bit_simps dest: bit_imp_le_length)

lemma sextet2: "unat (push_bit 4 ((a::byte) AND 3) OR drop_bit 4 b) < 64"
  unfolding and3_take_bit
  by (rule sextet_bound, rule bit_word_eqI) (auto simp add: bit_simps dest: bit_imp_le_length)

lemma sextet2_only: "unat (push_bit 4 ((a::byte) AND 3)) < 64"
  unfolding and3_take_bit
  by (rule sextet_bound, rule bit_word_eqI) (auto simp add: bit_simps dest: bit_imp_le_length)

lemma sextet3: "unat (push_bit 2 ((b::byte) AND 15) OR drop_bit 6 c) < 64"
  unfolding and15_take_bit
  by (rule sextet_bound, rule bit_word_eqI) (auto simp add: bit_simps dest: bit_imp_le_length)

lemma sextet3_only: "unat (push_bit 2 ((b::byte) AND 15)) < 64"
  unfolding and15_take_bit
  by (rule sextet_bound, rule bit_word_eqI) (auto simp add: bit_simps dest: bit_imp_le_length)

lemma sextet4: "unat ((c::byte) AND 63) < 64"
  unfolding and63_take_bit
  by (rule sextet_bound, rule bit_word_eqI) (auto simp add: bit_simps dest: bit_imp_le_length)

lemmas sextets = sextet1 sextet2 sextet2_only sextet3 sextet3_only sextet4

lemma base64_char_not_pad: "unat x < 64 \<Longrightarrow> base64_char x \<noteq> CHR ''=''"
  using base64_char_in_alphabet alphabet_no_specials(1) by metis

lemma base64_sextets_char:
  "unat x < 64 \<Longrightarrow> base64_sextets (base64_char x # s) = x # base64_sextets s"
  by (simp add: base64_sextets_def base64_char_not_pad unbase64_base64_char List.map_filter_simps)

lemma base64_sextets_pad: "base64_sextets (CHR ''='' # s) = []"
  by (simp add: base64_sextets_def List.map_filter_simps)

lemma base64_sextets_Nil: "base64_sextets [] = []"
  by (simp add: base64_sextets_def List.map_filter_simps)

lemma base64_sextets_quad:
  assumes "unat w < 64" "unat x < 64" "unat y < 64" "unat z < 64"
  shows "base64_sextets ([base64_char w, base64_char x, base64_char y, base64_char z] @ s)
           = w # x # y # z # base64_sextets s"
  using assms by (simp add: base64_sextets_char)




lemma from_base64_toString: "from_base64 (toString_base64 buf) = buf"
proof (induction buf rule: toString_base64.induct)
  case (1 a b c rest)
  have "base64_sextets (toString_base64 (a # b # c # rest))
      = drop_bit 2 a # (push_bit 4 (a AND 3) OR drop_bit 4 b)
        # (push_bit 2 (b AND 15) OR drop_bit 6 c) # (c AND 63)
        # base64_sextets (toString_base64 rest)"
    unfolding toString_base64.simps
    by (rule base64_sextets_quad) (rule sextets)+
  then have "from_base64 (toString_base64 (a # b # c # rest))
      = [a, b, c] @ from_base64 (toString_base64 rest)"
    by (simp only: from_base64_def base64_groups.simps regroup_first regroup_second regroup_third)
  with 1 show ?case by (simp only: append_Cons append_Nil)
next
  case (2 a b)
  have "base64_sextets (toString_base64 [a, b])
      = [drop_bit 2 a, push_bit 4 (a AND 3) OR drop_bit 4 b, push_bit 2 (b AND 15)]"
    by (simp only: toString_base64.simps base64_sextets_char base64_sextets_pad sextets)
  then show ?case
    by (simp only: from_base64_def base64_groups.simps regroup_first regroup_second_only)
next
  case (3 a)
  have "base64_sextets (toString_base64 [a]) = [drop_bit 2 a, push_bit 4 (a AND 3)]"
    by (simp only: toString_base64.simps base64_sextets_char base64_sextets_pad sextets)
  then show ?case
    by (simp only: from_base64_def base64_groups.simps regroup_first_only)
next
  case 4
  then show ?case by (simp add: from_base64_def base64_sextets_Nil)
qed

lemma toString_base64_shape:
  "\<exists>cs k. toString_base64 buf = cs @ replicate k CHR ''=''
      \<and> set cs \<subseteq> set base64_alphabet \<and> k \<le> 2 \<and> (length cs + k) mod 4 = 0"
proof (induction buf rule: toString_base64.induct)
  case (1 a b c rest)
  then obtain cs k where r: "toString_base64 rest = cs @ replicate k CHR ''=''"
    "set cs \<subseteq> set base64_alphabet" "k \<le> 2" "(length cs + k) mod 4 = 0"
    by auto
  let ?q = "[base64_char (drop_bit 2 a),
      base64_char (push_bit 4 (a AND 3) OR drop_bit 4 b),
      base64_char (push_bit 2 (b AND 15) OR drop_bit 6 c),
      base64_char (c AND 63)]"
  have q: "set ?q \<subseteq> set base64_alphabet"
    by (simp only: list.set insert_subset empty_subsetI base64_char_in_alphabet sextets simp_thms)
  have "toString_base64 (a # b # c # rest) = (?q @ cs) @ replicate k CHR ''=''"
    by (simp only: toString_base64.simps r(1) append_assoc)
  moreover have "set (?q @ cs) \<subseteq> set base64_alphabet"
    using q r(2) by (simp only: set_append Un_subset_iff simp_thms)
  moreover have "(length (?q @ cs) + k) mod 4 = 0"
    using r(4) by (simp add: add.assoc)
  ultimately show ?case using r(3) by (intro exI [of _ "?q @ cs"] exI [of _ k] conjI)
next
  case (2 a b)
  let ?q = "[base64_char (drop_bit 2 a),
      base64_char (push_bit 4 (a AND 3) OR drop_bit 4 b),
      base64_char (push_bit 2 (b AND 15))]"
  have q: "set ?q \<subseteq> set base64_alphabet"
    by (simp only: list.set insert_subset empty_subsetI base64_char_in_alphabet sextets simp_thms)
  have "toString_base64 [a, b] = ?q @ replicate 1 CHR ''=''"
    by (simp only: toString_base64.simps replicate.simps One_nat_def append_Cons append_Nil)
  moreover have "(length ?q + 1) mod 4 = 0" by simp
  ultimately show ?case using q by (intro exI [of _ ?q] exI [of _ 1] conjI) simp_all
next
  case (3 a)
  let ?q = "[base64_char (drop_bit 2 a), base64_char (push_bit 4 (a AND 3))]"
  have q: "set ?q \<subseteq> set base64_alphabet"
    by (simp only: list.set insert_subset empty_subsetI base64_char_in_alphabet sextets simp_thms)
  have "toString_base64 [a] = ?q @ replicate 2 CHR ''=''"
    by (simp only: toString_base64.simps replicate.simps numeral_2_eq_2 append_Cons append_Nil)
  moreover have "(length ?q + 2) mod 4 = 0" by simp
  ultimately show ?case using q by (intro exI [of _ ?q] exI [of _ 2] conjI) simp_all
next
  case 4
  show ?case by (intro exI [of _ "[]"] exI [of _ 0] conjI) simp_all
qed

lemma replace_all_append: "replace_all x y (s @ t) = replace_all x y s @ replace_all x y t"
  by (simp add: replace_all_def)

lemma replace_all_pads: "x \<noteq> CHR ''='' \<Longrightarrow> replace_all x y (replicate k CHR ''='') = replicate k CHR ''=''"
  by (simp add: replace_all_def)

lemma dropWhile_pads:
  "dropWhile (\<lambda>c. c = CHR ''='') (replicate k CHR ''='' @ t) = dropWhile (\<lambda>c. c = CHR ''='') t"
  by (induction k) simp_all

lemma strip_padding_pads: "strip_padding (s @ replicate k CHR ''='') = strip_padding s"
  by (simp add: strip_padding_def dropWhile_pads)

lemma strip_padding_id: "CHR ''='' \<notin> set s \<Longrightarrow> strip_padding s = s"
proof -
  assume a: "CHR ''='' \<notin> set s"
  have "dropWhile (\<lambda>c. c = CHR ''='') (rev s) = rev s"
  proof (cases "rev s")
    case Nil then show ?thesis by simp
  next
    case (Cons c cs)
    then have "c \<in> set s" by (metis list.set_intros(1) set_rev)
    with a have "c \<noteq> CHR ''=''" by blast
    with Cons show ?thesis by simp
  qed
  then show ?thesis by (simp add: strip_padding_def)
qed

lemma url_safe_body:
  assumes "set cs \<subseteq> set base64_alphabet"
  shows "CHR ''='' \<notin> set (replace_all CHR ''/'' CHR ''_'' (replace_all CHR ''+'' CHR ''-'' cs))"
  using assms alphabet_no_specials(1) by (auto simp add: replace_all_def)

lemma url_safe_inverse:
  assumes "set cs \<subseteq> set base64_alphabet"
  shows "replace_all CHR ''_'' CHR ''/'' (replace_all CHR ''-'' CHR ''+''
          (replace_all CHR ''/'' CHR ''_'' (replace_all CHR ''+'' CHR ''-'' cs))) = cs"
proof -
  have "\<forall>c \<in> set cs. c \<noteq> CHR ''-'' \<and> c \<noteq> CHR ''_''"
    using assms alphabet_no_specials by blast
  then show ?thesis
    by (induction cs) (auto simp add: replace_all_def)
qed

lemma pad_count:
  assumes "k \<le> 2" "(n + k) mod 4 = 0"
  shows "(4 - n mod 4) mod 4 = (k::nat)"
proof -
  define r where "r = n mod 4"
  have r4: "r < 4" by (simp add: r_def)
  have "(r + k) mod 4 = 0" using assms(2) by (simp add: r_def mod_add_left_eq)
  then have "4 dvd r + k" by (simp add: dvd_eq_mod_eq_0)
  then obtain q where q: "r + k = 4 * q" by (rule dvdE)
  with r4 assms(1) have "q = 0 \<or> q = 1" by linarith
  then have "(4 - r) mod 4 = k"
  proof
    assume "q = 0"
    with q show ?thesis by simp
  next
    assume "q = 1"
    with q have "4 - r = k" by simp
    with assms(1) show ?thesis by simp
  qed
  then show ?thesis by (simp add: r_def)
qed

lemma pad4_restores:
  "pad4 (replace_all CHR ''_'' CHR ''/'' (replace_all CHR ''-'' CHR ''+'' (encode buf)))
     = toString_base64 buf"
proof -
  obtain cs k where s: "toString_base64 buf = cs @ replicate k CHR ''=''"
    "set cs \<subseteq> set base64_alphabet" "k \<le> 2" "(length cs + k) mod 4 = 0"
    using toString_base64_shape [of buf] by auto
  let ?u = "replace_all CHR ''/'' CHR ''_'' (replace_all CHR ''+'' CHR ''-'' cs)"
  have "encode buf = strip_padding (?u @ replicate k CHR ''='')"
    by (simp add: encode_def s(1) replace_all_append replace_all_pads)
  also have "\<dots> = ?u"
    by (simp only: strip_padding_pads strip_padding_id [OF url_safe_body [OF s(2)]])
  finally have "replace_all CHR ''_'' CHR ''/'' (replace_all CHR ''-'' CHR ''+'' (encode buf)) = cs"
    by (simp only: url_safe_inverse [OF s(2)])
  moreover have "pad4 cs = cs @ replicate k CHR ''=''"
    by (simp only: pad4_eq pad_count [OF s(3) s(4)])
  ultimately show ?thesis by (simp only: s(1))
qed

lemma decode_encode_roundtrip: "decode (JStr (encode buf)) = Inr buf"
  by (simp only: decode.simps pad4_restores from_base64_toString)

lemma encode_body:
  "\<exists>cs. set cs \<subseteq> set base64_alphabet
      \<and> encode buf = replace_all CHR ''/'' CHR ''_'' (replace_all CHR ''+'' CHR ''-'' cs)"
proof -
  obtain cs k where s: "toString_base64 buf = cs @ replicate k CHR ''=''"
    "set cs \<subseteq> set base64_alphabet"
    using toString_base64_shape [of buf] by auto
  let ?u = "replace_all CHR ''/'' CHR ''_'' (replace_all CHR ''+'' CHR ''-'' cs)"
  have "encode buf = strip_padding (?u @ replicate k CHR ''='')"
    by (simp add: encode_def s(1) replace_all_append replace_all_pads)
  also have "\<dots> = ?u"
    by (simp only: strip_padding_pads strip_padding_id [OF url_safe_body [OF s(2)]])
  finally show ?thesis using s(2) by blast
qed

lemma encode_url_safe:
  "CHR ''+'' \<notin> set (encode buf)" "CHR ''/'' \<notin> set (encode buf)" "CHR ''='' \<notin> set (encode buf)"
proof -
  obtain cs where s: "set cs \<subseteq> set base64_alphabet"
    "encode buf = replace_all CHR ''/'' CHR ''_'' (replace_all CHR ''+'' CHR ''-'' cs)"
    using encode_body [of buf] by auto
  show "CHR ''+'' \<notin> set (encode buf)" "CHR ''/'' \<notin> set (encode buf)"
    by (auto simp add: s(2) replace_all_def)
  show "CHR ''='' \<notin> set (encode buf)"
    using url_safe_body [OF s(1)] by (simp only: s(2) not_False_eq_True)
qed

section \<open>Signing and verifying\<close>

lemma lastIndexOf_absent: "v \<notin> set buf \<Longrightarrow> lastIndexOf buf v = - 1"
proof -
  assume "v \<notin> set buf"
  then have "dropWhile (\<lambda>x. x \<noteq> v) (rev buf) = []" by auto
  then show ?thesis unfolding lastIndexOf_def by (simp only: list.case)
qed

lemma lastIndexOf_last: "v \<notin> set ys \<Longrightarrow> lastIndexOf (xs @ v # ys) v = int (length xs)"
proof -
  assume a: "v \<notin> set ys"
  have "rev (xs @ v # ys) = rev ys @ v # rev xs" by simp
  moreover have "dropWhile (\<lambda>x. x \<noteq> v) (rev ys @ v # rev xs) = v # rev xs"
    using a by (auto simp add: dropWhile_append3)
  ultimately show ?thesis unfolding lastIndexOf_def by (simp only: list.case length_rev)
qed

lemma lastIndexOf_cases:
  "(v \<notin> set buf \<and> lastIndexOf buf v = - 1)
   \<or> (\<exists>xs ys. buf = xs @ v # ys \<and> v \<notin> set ys \<and> lastIndexOf buf v = int (length xs))"
proof (cases "v \<in> set buf")
  case False
  then show ?thesis by (simp add: lastIndexOf_absent)
next
  case True
  then obtain xs ys where "buf = xs @ v # ys" "v \<notin> set ys"
    by (meson split_list_last)
  then show ?thesis using lastIndexOf_last by blast
qed

lemma verifySignedToken_total: "\<exists>r. verifySignedToken P t k = Inr r"
  by (cases "verifySignedToken_try P t k") (simp_all add: verifySignedToken_def)

lemma verifySignedToken_decode_fails:
  "decode t = Inl e \<Longrightarrow> verifySignedToken P t k = Inr rejected"
  by (simp add: verifySignedToken_def verifySignedToken_try_def)

lemma verifySignedToken_no_boundary:
  "decode t = Inr raw \<Longrightarrow> lastIndexOf raw 0x2E \<le> 0 \<Longrightarrow> verifySignedToken P t k = Inr rejected"
  by (simp add: verifySignedToken_def verifySignedToken_try_def Let_def)

text \<open>The token split at the last separator byte.\<close>

lemma verifySignedToken_split:
  assumes "decode t = Inr (pl @ 0x2E # mac)" and "0x2E \<notin> set mac" and "pl \<noteq> []"
  shows "verifySignedToken P t k =
     (case createHmac_digest P k (utf8_toString P pl) of
        Inl e \<Rightarrow> Inr rejected
      | Inr expected \<Rightarrow>
          if length mac \<noteq> length expected then Inr rejected
          else case safeEqual P (Buffer mac) (Buffer expected) of
                 Inl e \<Rightarrow> Inr rejected
               | Inr eq \<Rightarrow>
                   if \<not> eq then Inr rejected
                   else Inr \<lparr>ok = True,
                             payload = (case json_parse P (utf8_toString P pl) of
                                          None \<Rightarrow> JNull | Some v \<Rightarrow> v)\<rparr>)"
proof -
  have idx: "lastIndexOf (pl @ 0x2E # mac) 0x2E = int (length pl)"
    using assms(2) by (rule lastIndexOf_last)
  have pos: "\<not> int (length pl) \<le> 0" using assms(3) by simp
  have tk: "take (nat (int (length pl))) (pl @ 0x2E # mac) = pl"
    "drop (nat (int (length pl) + 1)) (pl @ 0x2E # mac) = mac"
    by (simp_all add: nat_add_distrib)
  show ?thesis
    unfolding verifySignedToken_def verifySignedToken_try_def assms(1) sum.case Let_def idx tk
    using pos by (simp split: sum.splits)
qed

lemma utf8_separator: "utf8 ''.'' = [0x2E]"
  by (simp add: utf8_def)

lemma signPayload_Some:
  "signPayload P p (Some k) = Inr (encode (utf8 p @ 0x2E # hmac_sha256 P (to_buffer k) (utf8 p)))"
  by (simp add: signPayload_def createHmac_digest_def utf8_separator)

lemma signPayload_None: "signPayload P p None = Inl TypeError"
  by (simp add: signPayload_def createHmac_digest_def)

text \<open>Signing and verifying when the MAC has no separator byte in it.\<close>

lemma sign_verify_ok:
  assumes tse: "\<forall>x y. length x = length y \<longrightarrow> timingSafeEqual P x y = Inr (x = y)"
    and nosep: "0x2E \<notin> set (hmac_sha256 P (to_buffer k) (utf8 p))"
    and nonempty: "p \<noteq> []"
    and str: "utf8_toString P (utf8 p) = p"
    and sign: "signPayload P p (Some k) = Inr token"
  shows "verifySignedToken P (JStr token) (Some k)
           = Inr \<lparr>ok = True, payload = (case json_parse P p of None \<Rightarrow> JNull | Some v \<Rightarrow> v)\<rparr>"
proof -
  let ?mac = "hmac_sha256 P (to_buffer k) (utf8 p)"
  have token: "token = encode (utf8 p @ 0x2E # ?mac)"
    using sign by (simp add: signPayload_Some)
  have dec: "decode (JStr token) = Inr (utf8 p @ 0x2E # ?mac)"
    unfolding token by (rule decode_encode_roundtrip)
  have ne: "utf8 p \<noteq> []" using nonempty by (simp add: utf8_def)
  have eq: "safeEqual P (Buffer ?mac) (Buffer ?mac) = Inr True"
    using tse by (simp add: safeEqual_def)
  show ?thesis
    unfolding verifySignedToken_split [OF dec nosep ne]
    by (simp add: createHmac_digest_def str eq)
qed

text \<open>Signing and verifying when the MAC has a separator byte in it.\<close>

lemma sign_verify_separator_in_mac:
  assumes sep: "0x2E \<in> set (hmac_sha256 P (to_buffer k) (utf8 p))"
    and len: "\<forall>key msg. length (hmac_sha256 P key msg) = 32"
    and sign: "signPayload P p (Some k) = Inr token"
  shows "verifySignedToken P (JStr token) (Some k) = Inr rejected"
proof -
  let ?mac = "hmac_sha256 P (to_buffer k) (utf8 p)"
  obtain m1 m2 where m: "?mac = m1 @ 0x2E # m2" "0x2E \<notin> set m2"
    using sep by (meson split_list_last)
  have token: "token = encode (utf8 p @ 0x2E # ?mac)"
    using sign by (simp add: signPayload_Some)
  have "decode (JStr token) = Inr (utf8 p @ 0x2E # ?mac)"
    unfolding token by (rule decode_encode_roundtrip)
  then have dec: "decode (JStr token) = Inr ((utf8 p @ 0x2E # m1) @ 0x2E # m2)"
    by (simp add: m(1))
  have ne: "utf8 p @ 0x2E # m1 \<noteq> []" by simp
  have "length ?mac = 32" using len by simp
  then have short: "length m2 < 32" by (simp add: m(1))
  have "\<And>s. length m2 \<noteq> length (hmac_sha256 P (to_buffer k) (utf8 s))"
    using short len by simp
  then show ?thesis
    unfolding verifySignedToken_split [OF dec m(2) ne]
    by (simp add: createHmac_digest_def)
qed

section \<open>The example values\<close>

lemma ascii_toString_utf8: "ascii_toString (utf8 s) = s"
proof (induction s)
  case Nil
  then show ?case by (simp add: ascii_toString_def utf8_def)
next
  case (Cons c s)
  have "of_char c < (256::nat)" by simp
  then have "unat (of_nat (of_char c) :: byte) = of_char c"
    by (simp add: unat_of_nat)
  with Cons show ?case by (simp add: ascii_toString_def utf8_def)
qed

lemma node_platform_fields:
  "hmac_sha256 node_platform = node_hmac"
  "timingSafeEqual node_platform = node_timingSafeEqual"
  "json_parse node_platform = node_json_parse"
  "json_stringify node_platform = node_json_stringify"
  "utf8_toString node_platform = ascii_toString"
  "url_host node_platform = node_url_host"
  by (simp_all add: node_platform_def)

lemma node_timingSafeEqual_ok:
  "\<forall>x y. length x = length y \<longrightarrow> timingSafeEqual node_platform x y = Inr (x = y)"
  by (simp add: node_platform_fields node_timingSafeEqual_def)

lemma node_hmac_length: "\<forall>key msg. length (hmac_sha256 node_platform key msg) = 32"
  by (simp add: node_platform_fields node_hmac_def mac_valid_def mac_sep_def mac_zero_exp_def
      mac_expired_def mac_expired_sep_def mac_not_json_def)

lemma node_hmac_values:
  "hmac_sha256 node_platform (to_buffer test_key) (utf8 payload_valid) = mac_valid"
  "hmac_sha256 node_platform (to_buffer test_key) (utf8 payload_sep) = mac_sep"
  "hmac_sha256 node_platform (to_buffer test_key) (utf8 payload_zero_exp) = mac_zero_exp"
  "hmac_sha256 node_platform (to_buffer test_key) (utf8 payload_expired) = mac_expired"
  "hmac_sha256 node_platform (to_buffer test_key) (utf8 payload_not_json) = mac_not_json"
  "hmac_sha256 node_platform (to_buffer test_key) (utf8 payload_expired_sep) = mac_expired_sep"
  by (simp_all add: node_platform_fields node_hmac_def utf8_def payload_valid_def payload_sep_def
      payload_zero_exp_def payload_expired_def payload_expired_sep_def payload_not_json_def)

lemma token_texts:
  "encode (utf8 payload_valid @ 0x2E # mac_valid) = token_valid"
  "encode (utf8 payload_sep @ 0x2E # mac_sep) = token_sep"
  "encode (utf8 payload_zero_exp @ 0x2E # mac_zero_exp) = token_zero_exp"
  "encode (utf8 payload_expired @ 0x2E # mac_expired) = token_expired"
  "encode (utf8 payload_not_json @ 0x2E # mac_not_json) = token_not_json"
  "encode (utf8 payload_expired_sep @ 0x2E # mac_expired_sep) = token_expired_sep"
  by (simp_all add: encode_def replace_all_def strip_padding_def base64_char_def
      base64_alphabet_def utf8_def
      payload_valid_def mac_valid_def token_valid_def
      payload_sep_def mac_sep_def token_sep_def
      payload_zero_exp_def mac_zero_exp_def token_zero_exp_def
      payload_expired_def mac_expired_def token_expired_def
      payload_not_json_def mac_not_json_def token_not_json_def
      payload_expired_sep_def mac_expired_sep_def token_expired_sep_def)

lemma node_signPayload:
  "signPayload node_platform payload_valid (Some test_key) = Inr token_valid"
  "signPayload node_platform payload_sep (Some test_key) = Inr token_sep"
  "signPayload node_platform payload_zero_exp (Some test_key) = Inr token_zero_exp"
  "signPayload node_platform payload_expired (Some test_key) = Inr token_expired"
  "signPayload node_platform payload_not_json (Some test_key) = Inr token_not_json"
  "signPayload node_platform payload_expired_sep (Some test_key) = Inr token_expired_sep"
  by (simp_all only: signPayload_Some node_hmac_values token_texts)

lemma macs_without_separator:
  "0x2E \<notin> set mac_valid" "0x2E \<notin> set mac_zero_exp" "0x2E \<notin> set mac_expired"
  "0x2E \<notin> set mac_not_json"
  by (simp_all add: mac_valid_def mac_zero_exp_def mac_expired_def mac_not_json_def)

lemma mac_sep_has_separator: "0x2E \<in> set mac_sep" "mac_sep ! 18 = 0x2E" "length mac_sep = 32"
  by (simp_all add: mac_sep_def)

lemma mac_expired_sep_has_separator: "0x2E \<in> set mac_expired_sep" "mac_expired_sep ! 17 = 0x2E"
  by (simp_all add: mac_expired_sep_def)

lemma payloads_nonempty:
  "payload_valid \<noteq> []" "payload_zero_exp \<noteq> []" "payload_expired \<noteq> []" "payload_not_json \<noteq> []"
  by (simp_all add: payload_valid_def payload_zero_exp_def payload_expired_def payload_not_json_def)

lemma node_json_parse_values:
  "json_parse node_platform payload_valid = Some (time_payload 1700000000000 1700003600000)"
  "json_parse node_platform payload_sep = Some (time_payload 1700000000006 1700003600006)"
  "json_parse node_platform payload_zero_exp = Some (time_payload 1700000000000 0)"
  "json_parse node_platform payload_expired = Some (time_payload 1700000000000 1699999999000)"
  "json_parse node_platform payload_not_json = None"
  "json_parse node_platform payload_expired_sep = Some (time_payload 1700000000001 1699999999001)"
  by (simp_all add: node_platform_fields node_json_parse_def payload_valid_def payload_sep_def
      payload_zero_exp_def payload_expired_def payload_expired_sep_def payload_not_json_def)

lemma node_verifySignedToken:
  "verifySignedToken node_platform (JStr token_valid) (Some test_key)
     = Inr \<lparr>ok = True, payload = time_payload 1700000000000 1700003600000\<rparr>"
  "verifySignedToken node_platform (JStr token_zero_exp) (Some test_key)
     = Inr \<lparr>ok = True, payload = time_payload 1700000000000 0\<rparr>"
  "verifySignedToken node_platform (JStr token_expired) (Some test_key)
     = Inr \<lparr>ok = True, payload = time_payload 1700000000000 1699999999000\<rparr>"
  "verifySignedToken node_platform (JStr token_not_json) (Some test_key)
     = Inr \<lparr>ok = True, payload = JNull\<rparr>"
  "verifySignedToken node_platform (JStr token_sep) (Some test_key) = Inr rejected"
  "verifySignedToken node_platform (JStr token_expired_sep) (Some test_key) = Inr rejected"
proof -
  note ok = sign_verify_ok [OF node_timingSafeEqual_ok, where k = test_key]
  show "verifySignedToken node_platform (JStr token_valid) (Some test_key)
     = Inr \<lparr>ok = True, payload = time_payload 1700000000000 1700003600000\<rparr>"
    using ok [OF _ payloads_nonempty(1) _ node_signPayload(1)]
    by (simp add: node_hmac_values macs_without_separator node_json_parse_values
        node_platform_fields(5) ascii_toString_utf8)
  show "verifySignedToken node_platform (JStr token_zero_exp) (Some test_key)
     = Inr \<lparr>ok = True, payload = time_payload 1700000000000 0\<rparr>"
    using ok [OF _ payloads_nonempty(2) _ node_signPayload(3)]
    by (simp add: node_hmac_values macs_without_separator node_json_parse_values
        node_platform_fields(5) ascii_toString_utf8)
  show "verifySignedToken node_platform (JStr token_expired) (Some test_key)
     = Inr \<lparr>ok = True, payload = time_payload 1700000000000 1699999999000\<rparr>"
    using ok [OF _ payloads_nonempty(3) _ node_signPayload(4)]
    by (simp add: node_hmac_values macs_without_separator node_json_parse_values
        node_platform_fields(5) ascii_toString_utf8)
  show "verifySignedToken node_platform (JStr token_not_json) (Some test_key)
     = Inr \<lparr>ok = True, payload = JNull\<rparr>"
    using ok [OF _ payloads_nonempty(4) _ node_signPayload(5)]
    by (simp add: node_hmac_values macs_without_separator node_json_parse_values
        node_platform_fields(5) ascii_toString_utf8)
  show "verifySignedToken node_platform (JStr token_sep) (Some test_key) = Inr rejected"
    by (rule sign_verify_separator_in_mac [OF _ node_hmac_length node_signPayload(2)])
       (simp add: node_hmac_values mac_sep_has_separator)
  show "verifySignedToken node_platform (JStr token_expired_sep) (Some test_key) = Inr rejected"
    by (rule sign_verify_separator_in_mac [OF _ node_hmac_length node_signPayload(6)])
       (simp add: node_hmac_values mac_expired_sep_has_separator)
qed

lemma small_tokens:
  "decode (JStr ''AAAA'') = Inr [0, 0, 0]"
  "decode (JStr ''LgEC'') = Inr [0x2E, 1, 2]"
  "decode (JStr ''YWIuAQID'') = Inr (utf8 ''ab'' @ [0x2E, 1, 2, 3])"
proof -
  have "encode [0, 0, 0] = ''AAAA''" "encode [0x2E, 1, 2] = ''LgEC''"
    "encode (utf8 ''ab'' @ [0x2E, 1, 2, 3]) = ''YWIuAQID''"
    by (simp_all add: encode_def replace_all_def strip_padding_def base64_char_def
        base64_alphabet_def utf8_def)
  then show "decode (JStr ''AAAA'') = Inr [0, 0, 0]"
    "decode (JStr ''LgEC'') = Inr [0x2E, 1, 2]"
    "decode (JStr ''YWIuAQID'') = Inr (utf8 ''ab'' @ [0x2E, 1, 2, 3])"
    using decode_encode_roundtrip by metis+
qed

lemma forged_token:
  "decode (JStr ''eyJpYXQiOjE3MDAwMDAwMDAwMDAsImV4cCI6MTcwMDAwMzYwMDAwMH0uH60_XUYY1TVSstL_s4fl57ckvAcZB-Oon1SfNUMPyZ8'')
     = Inr (utf8 payload_valid @ 0x2E # mac_zero_exp)"
proof -
  have "encode (utf8 payload_valid @ 0x2E # mac_zero_exp)
      = ''eyJpYXQiOjE3MDAwMDAwMDAwMDAsImV4cCI6MTcwMDAwMzYwMDAwMH0uH60_XUYY1TVSstL_s4fl57ckvAcZB-Oon1SfNUMPyZ8''"
    by (simp add: encode_def replace_all_def strip_padding_def base64_char_def
        base64_alphabet_def utf8_def payload_valid_def mac_zero_exp_def)
  then show ?thesis using decode_encode_roundtrip by metis
qed

lemma example_tokens_decoded:
  "decode (JStr token_valid) = Inr (utf8 payload_valid @ 0x2E # mac_valid)"
  "decode (JStr token_sep) = Inr (utf8 payload_sep @ 0x2E # mac_sep)"
  "decode (JStr token_zero_exp) = Inr (utf8 payload_zero_exp @ 0x2E # mac_zero_exp)"
  "decode (JStr token_expired) = Inr (utf8 payload_expired @ 0x2E # mac_expired)"
  "decode (JStr token_not_json) = Inr (utf8 payload_not_json @ 0x2E # mac_not_json)"
  using decode_encode_roundtrip [of "utf8 payload_valid @ 0x2E # mac_valid"]
    decode_encode_roundtrip [of "utf8 payload_sep @ 0x2E # mac_sep"]
    decode_encode_roundtrip [of "utf8 payload_zero_exp @ 0x2E # mac_zero_exp"]
    decode_encode_roundtrip [of "utf8 payload_expired @ 0x2E # mac_expired"]
    decode_encode_roundtrip [of "utf8 payload_not_json @ 0x2E # mac_not_json"]
  by (simp_all only: token_texts)

section \<open>The example requests\<close>

lemma stateless_opts_fields:
  "stateless (stateless_opts c)" "statelessKey (stateless_opts c) = Some test_key"
  "originCheck (stateless_opts c) = c"
  "allowedMethods (stateless_opts c) = [''GET'', ''HEAD'', ''OPTIONS'']"
  "headerName (stateless_opts c) = ''x-csrf-plus''"
  by (simp_all add: stateless_opts_def assign_def DEFAULTS_def override_def no_user_opts_def)

lemma token_request_checks:
  "http_method (token_request tok) \<notin> set (allowedMethods (stateless_opts c))"
  "origin_ok node_platform (token_request tok)"
  "tok \<noteq> [] \<Longrightarrow> submitted_token (stateless_opts c) (token_request tok) = JStr tok"
  by (simp_all add: stateless_opts_fields token_request_def origin_ok_def req_get_def
      header_def js_or_def js_and_def to_lower_def same_host_def node_platform_fields
      node_url_host_def submitted_token_def Let_def)

lemma headerless_request_checks:
  "http_method (headerless_request tok) \<notin> set (allowedMethods (stateless_opts c))"
  "headers (headerless_request tok) ''origin'' = None"
  "headers (headerless_request tok) ''referer'' = None"
  "headers (headerless_request tok) ''referrer'' = None"
  "tok \<noteq> [] \<Longrightarrow> submitted_token (stateless_opts c) (headerless_request tok) = JStr tok"
  by (simp_all add: stateless_opts_fields headerless_request_def req_get_def
      header_def js_or_def js_and_def to_lower_def submitted_token_def Let_def)

lemma example_request_methods:
  "http_method (token_request tok) = ''POST''" "http_method (headerless_request tok) = ''POST''"
  by (simp_all add: token_request_def headerless_request_def)

lemma tokens_nonempty:
  "token_valid \<noteq> []" "token_sep \<noteq> []" "token_zero_exp \<noteq> []" "token_expired \<noteq> []"
  "token_not_json \<noteq> []" "token_expired_sep \<noteq> []"
  by (simp_all add: token_valid_def token_sep_def token_zero_exp_def token_expired_def
      token_not_json_def token_expired_sep_def)

text \<open>Stateless verification of a request that has passed the method and origin checks.\<close>

lemma verify_stateless_dispatch:
  assumes "stateless opts" and "http_method req \<notin> set (allowedMethods opts)"
    and "\<not> originCheck opts \<or> origin_ok P req"
    and "truthy (submitted_token opts req)"
    and "verifySignedToken P (submitted_token opts req) (statelessKey opts) = Inr r"
  shows "verify P opts now req =
           (if \<not> ok r then Send 403 ''CSRF token invalid.''
            else if expired P now (payload r) then Send 403 ''CSRF token expired.''
            else Next)"
  using assms by (auto simp add: verify_def verify_try_def verify_stateless_def Let_def)

lemma expired_time_payload:
  "expired P now (time_payload issued expires) \<longleftrightarrow> expires \<noteq> 0 \<and> now > expires"
  by (simp add: expired_def time_payload_def)

lemma node_verify:
  "verify node_platform (stateless_opts c) now (token_request token_valid)
     = (if now > 1700003600000 then Send 403 ''CSRF token expired.'' else Next)"
  "verify node_platform (stateless_opts c) now (token_request token_expired)
     = (if now > 1699999999000 then Send 403 ''CSRF token expired.'' else Next)"
  "verify node_platform (stateless_opts c) now (token_request token_zero_exp) = Next"
  "verify node_platform (stateless_opts c) now (token_request token_not_json) = Next"
  "verify node_platform (stateless_opts c) now (token_request token_sep)
     = Send 403 ''CSRF token invalid.''"
  "verify node_platform (stateless_opts c) now (token_request token_expired_sep)
     = Send 403 ''CSRF token invalid.''"
proof -
  have d: "verify node_platform (stateless_opts c) now (token_request tok) =
           (if \<not> ok r then Send 403 ''CSRF token invalid.''
            else if expired node_platform now (payload r) then Send 403 ''CSRF token expired.''
            else Next)"
    if "tok \<noteq> []" "verifySignedToken node_platform (JStr tok) (Some test_key) = Inr r" for tok r
    using that
    by (intro verify_stateless_dispatch)
       (simp_all add: stateless_opts_fields token_request_checks example_request_methods)
  show "verify node_platform (stateless_opts c) now (token_request token_valid)
     = (if now > 1700003600000 then Send 403 ''CSRF token expired.'' else Next)"
    by (simp add: d [OF tokens_nonempty(1) node_verifySignedToken(1)] expired_time_payload)
  show "verify node_platform (stateless_opts c) now (token_request token_expired)
     = (if now > 1699999999000 then Send 403 ''CSRF token expired.'' else Next)"
    by (simp add: d [OF tokens_nonempty(4) node_verifySignedToken(3)] expired_time_payload)
  show "verify node_platform (stateless_opts c) now (token_request token_zero_exp) = Next"
    by (simp add: d [OF tokens_nonempty(3) node_verifySignedToken(2)] expired_time_payload)
  show "verify node_platform (stateless_opts c) now (token_request token_not_json) = Next"
    by (simp add: d [OF tokens_nonempty(5) node_verifySignedToken(4)] expired_def)
  show "verify node_platform (stateless_opts c) now (token_request token_sep)
     = Send 403 ''CSRF token invalid.''"
    by (simp add: d [OF tokens_nonempty(2) node_verifySignedToken(5)] rejected_def)
  show "verify node_platform (stateless_opts c) now (token_request token_expired_sep)
     = Send 403 ''CSRF token invalid.''"
    by (simp add: d [OF tokens_nonempty(6) node_verifySignedToken(6)] rejected_def)
qed

section \<open>Constant-time comparison\<close>

lemma safeEqual_raises:
  "as_buffer P a = Inl e \<Longrightarrow> safeEqual P a b = Inl e"
  "as_buffer P a = Inr x \<Longrightarrow> as_buffer P b = Inl e \<Longrightarrow> safeEqual P a b = Inl e"
  by (simp_all add: safeEqual_def)

lemma as_buffer_arg_of: "as_buffer P (arg_of a) = Inr (to_buffer a)"
  by (cases a) simp_all

text \<open>
  C10 as stated: \<open>safeEqual\<close> is total and never raises, for every pair of inputs. It
  raises: a number is not a Buffer, \<open>Buffer.from(5)\<close> is a \<open>TypeError\<close>, and nothing in
  \<open>safeEqual\<close> catches it. The same goes for \<open>null\<close> and \<open>undefined\<close>, in either
  position.
\<close>

theorem safeEqual_never_raises_counterexample:
  "safeEqual node_platform (NotBuffer (JNum 5)) (Buffer [0x35]) = Inl TypeError
   \<and> safeEqual node_platform (Buffer [0x35]) (NotBuffer JNull) = Inl TypeError
   \<and> safeEqual node_platform (NotBuffer JUndefined) (NotBuffer JUndefined) = Inl TypeError"
  by (simp add: safeEqual_def)

text \<open>
  C10, amended. For every pair of inputs each of which is a Buffer or a string,
  \<open>safeEqual\<close> does not raise: it returns true if and only if the two inputs have
  equal length and identical byte content, and when the lengths differ it returns
  false whatever \<open>crypto.timingSafeEqual\<close> would do on such a pair, so that function
  is not consulted and its unequal-length error cannot surface. The only assumption
  on \<open>crypto.timingSafeEqual\<close> is its behaviour on buffers of equal length. On a first
  input that is a number, a boolean, \<open>null\<close> or \<open>undefined\<close>, \<open>safeEqual\<close> raises the
  \<open>TypeError\<close> of \<open>Buffer.from\<close>.
\<close>

theorem safeEqual_on_buffers_and_strings:
  assumes "\<forall>x y. length x = length y \<longrightarrow> timingSafeEqual P x y = Inr (x = y)"
  shows "safeEqual P (arg_of a) (arg_of b)
           = Inr (length (to_buffer a) = length (to_buffer b) \<and> to_buffer a = to_buffer b)
         \<and> (length (to_buffer a) \<noteq> length (to_buffer b)
              \<longrightarrow> (\<forall>Q. safeEqual Q (arg_of a) (arg_of b) = Inr False))
         \<and> (\<forall>n c. safeEqual P (NotBuffer (JNum n)) c = Inl TypeError)
         \<and> (\<forall>t c. safeEqual P (NotBuffer (JBool t)) c = Inl TypeError)
         \<and> (\<forall>c. safeEqual P (NotBuffer JNull) c = Inl TypeError)
         \<and> (\<forall>c. safeEqual P (NotBuffer JUndefined) c = Inl TypeError)"
proof (intro conjI allI impI)
  show "safeEqual P (arg_of a) (arg_of b)
           = Inr (length (to_buffer a) = length (to_buffer b) \<and> to_buffer a = to_buffer b)"
    using assms by (auto simp add: safeEqual_def as_buffer_arg_of)
next
  fix Q
  assume "length (to_buffer a) \<noteq> length (to_buffer b)"
  then show "safeEqual Q (arg_of a) (arg_of b) = Inr False"
    by (simp add: safeEqual_def as_buffer_arg_of)
qed (simp_all add: safeEqual_raises)

theorem safeEqual_on_buffers_and_strings_witness:
  "safeEqual node_platform (NotBuffer (JStr ''hello'')) (Buffer (utf8 ''hello'')) = Inr True
   \<and> safeEqual node_platform (NotBuffer (JStr ''hello'')) (NotBuffer (JStr ''world'')) = Inr False
   \<and> safeEqual node_platform (NotBuffer (JStr ''hello'')) (NotBuffer (JStr ''hell'')) = Inr False
   \<and> timingSafeEqual node_platform (utf8 ''hello'') (utf8 ''hell'') = Inl RangeError
   \<and> safeEqual node_platform (NotBuffer (JNum 5)) (NotBuffer (JStr ''5'')) = Inl TypeError"
proof -
  have h: "\<forall>x y. length x = length y \<longrightarrow> timingSafeEqual node_platform x y = Inr (x = y)"
    by (simp add: node_platform_def node_timingSafeEqual_def)
  note T = safeEqual_on_buffers_and_strings [OF h]
  have "safeEqual node_platform (NotBuffer (JStr ''hello'')) (Buffer (utf8 ''hello'')) = Inr True"
    using T [of "Str ''hello''" "Buf (utf8 ''hello'')"] by simp
  moreover have "safeEqual node_platform (NotBuffer (JStr ''hello'')) (NotBuffer (JStr ''world''))
      = Inr False"
    using T [of "Str ''hello''" "Str ''world''"] by (simp add: utf8_def)
  moreover have "safeEqual node_platform (NotBuffer (JStr ''hello'')) (NotBuffer (JStr ''hell''))
      = Inr False"
    using T [of "Str ''hello''" "Str ''hell''"] by (simp add: utf8_def)
  moreover have "timingSafeEqual node_platform (utf8 ''hello'') (utf8 ''hell'') = Inl RangeError"
    by (simp add: node_platform_def node_timingSafeEqual_def utf8_def)
  moreover have "safeEqual node_platform (NotBuffer (JNum 5)) (NotBuffer (JStr ''5'')) = Inl TypeError"
    using T [of "Str []" "Str []"] by simp
  ultimately show ?thesis by blast
qed

section \<open>The text codec\<close>

text \<open>
  C7. Text-codec round-trip: for every byte buffer \<open>b\<close>, \<open>decode(encode(b)) = b\<close>.
  \<open>encode\<close> produces URL-safe base64 without padding (its output has no \<open>+\<close>, no
  \<open>/\<close> and no \<open>=\<close>), and \<open>decode\<close> restores the padding and reverses the
  substitution: what it hands to the base64 decoder is the padded standard base64
  text of \<open>b\<close>.
\<close>

theorem text_codec_roundtrip:
  "decode (JStr (encode b)) = Inr b
   \<and> CHR ''+'' \<notin> set (encode b) \<and> CHR ''/'' \<notin> set (encode b) \<and> CHR ''='' \<notin> set (encode b)
   \<and> pad4 (replace_all CHR ''_'' CHR ''/'' (replace_all CHR ''-'' CHR ''+'' (encode b)))
       = toString_base64 b"
  using decode_encode_roundtrip [of b] encode_url_safe [of b] pad4_restores [of b]
  by (intro conjI)

section \<open>The mask codec\<close>

lemma xor_pad_twice:
  "length pad = length secret \<Longrightarrow> map2 (XOR) pad (map2 (XOR) pad secret) = (secret :: buffer)"
  by (induction pad secret rule: list_induct2) simp_all

text \<open>
  C6. Mask round-trip: for every secret \<open>S\<close> of any length \<open>L \<ge> 1\<close> and every pad of
  that length chosen at mint time, \<open>unmaskToken(makeMaskedToken(S)) = S\<close>.
\<close>

theorem mask_roundtrip:
  assumes "length pad = length S" and "S \<noteq> []"
  shows "unmaskToken (JStr (makeMaskedToken pad S)) = Inr S"
proof -
  let ?raw = "pad @ map2 (XOR) pad S"
  have len: "length ?raw = 2 * length S" using assms(1) by simp
  have "decode (JStr (makeMaskedToken pad S)) = Inr ?raw"
    by (simp only: makeMaskedToken_def decode_encode_roundtrip)
  moreover have "length ?raw \<noteq> 0" "length ?raw mod 2 = 0" "length ?raw div 2 = length pad"
    using assms by simp_all
  moreover have "take (length pad) ?raw = pad" "drop (length pad) ?raw = map2 (XOR) pad S"
    by simp_all
  ultimately show ?thesis
    using xor_pad_twice [OF assms(1)] by (simp add: unmaskToken_def Let_def del: length_append length_map)
qed

theorem mask_roundtrip_witness:
  "length [0xA5, 0x0F :: byte] = length [0x13, 0x37 :: byte] \<and> [0x13, 0x37 :: byte] \<noteq> []
   \<and> unmaskToken (JStr (makeMaskedToken [0xA5, 0x0F] [0x13, 0x37])) = Inr [0x13, 0x37]"
  using mask_roundtrip [of "[0xA5, 0x0F]" "[0x13, 0x37]"] by simp

section \<open>Construction of the middleware\<close>

text \<open>
  C8. \<open>createMiddleware\<close> raises at construction if and only if the configuration
  is contradictory: stateless mode off with no usable store (no store, or a store
  without a \<open>get\<close> method), or stateless mode on with no \<open>statelessKey\<close> (\<open>null\<close> or
  the empty string). Every other configuration gives the bundle over the merged
  options. The two failures cannot come back at request time: with a bundle that was
  returned, looking up the store in stateful mode reaches the store's \<open>get\<close>, and
  computing an HMAC in stateless mode does not raise for want of a key.
\<close>

theorem createMiddleware_fails_fast:
  fixes default_store :: store and userOpts :: user_opts
  defines "merged \<equiv> assign (DEFAULTS default_store) userOpts"
  defines "contradictory \<equiv> (\<not> stateless merged \<and> no_store_get merged)
                           \<or> (stateless merged \<and> no_key (statelessKey merged))"
  shows "((\<exists>e. createMiddleware default_store userOpts = Inl e) \<longleftrightarrow> contradictory)
       \<and> (\<not> contradictory \<longrightarrow> createMiddleware default_store userOpts = Inr \<lparr>bundle_opts = merged\<rparr>)
       \<and> (\<forall>b. createMiddleware default_store userOpts = Inr b \<longrightarrow>
              (\<not> stateless (bundle_opts b) \<longrightarrow>
                 (\<exists>s g. store (bundle_opts b) = Some s \<and> get s = Some g
                        \<and> (\<forall>k. store_lookup (bundle_opts b) k = g k)))
            \<and> (stateless (bundle_opts b) \<longrightarrow>
                 (\<forall>P msg. \<exists>mac. createHmac_digest P (statelessKey (bundle_opts b)) msg = Inr mac)))"
proof (intro conjI allI impI)
  show "(\<exists>e. createMiddleware default_store userOpts = Inl e) \<longleftrightarrow> contradictory"
    by (auto simp add: createMiddleware_def Let_def merged_def contradictory_def)
next
  assume "\<not> contradictory"
  then show "createMiddleware default_store userOpts = Inr \<lparr>bundle_opts = merged\<rparr>"
    by (auto simp add: createMiddleware_def Let_def merged_def contradictory_def)
next
  fix b
  assume b: "createMiddleware default_store userOpts = Inr b" and "\<not> stateless (bundle_opts b)"
  then have "\<not> no_store_get (bundle_opts b)"
    by (auto simp add: createMiddleware_def Let_def split: if_splits)
  then show "\<exists>s g. store (bundle_opts b) = Some s \<and> get s = Some g
                \<and> (\<forall>k. store_lookup (bundle_opts b) k = g k)"
    by (auto simp add: no_store_get_def store_lookup_def split: option.splits)
next
  fix b P msg
  assume b: "createMiddleware default_store userOpts = Inr b" and "stateless (bundle_opts b)"
  then have "\<not> no_key (statelessKey (bundle_opts b))"
    by (auto simp add: createMiddleware_def Let_def split: if_splits)
  then show "\<exists>mac. createHmac_digest P (statelessKey (bundle_opts b)) msg = Inr mac"
    by (cases "statelessKey (bundle_opts b)") (simp_all add: createHmac_digest_def)
qed

theorem createMiddleware_fails_fast_witness:
  "createMiddleware (memory_adapter 0 createMemoryStore) no_user_opts
     = Inr \<lparr>bundle_opts = assign (DEFAULTS (memory_adapter 0 createMemoryStore)) no_user_opts\<rparr>
   \<and> createMiddleware (memory_adapter 0 createMemoryStore) (no_user_opts\<lparr>u_store := Some None\<rparr>)
     = Inl (Error ''store required when stateless=false.'')
   \<and> createMiddleware (memory_adapter 0 createMemoryStore) (no_user_opts\<lparr>u_stateless := Some True\<rparr>)
     = Inl (Error ''statelessKey required when stateless=true'')
   \<and> createMiddleware (memory_adapter 0 createMemoryStore)
        (no_user_opts\<lparr>u_stateless := Some True, u_statelessKey := Some (Some (Str ''''))\<rparr>)
     = Inl (Error ''statelessKey required when stateless=true'')
   \<and> (\<exists>b. createMiddleware (memory_adapter 0 createMemoryStore)
        (no_user_opts\<lparr>u_stateless := Some True, u_statelessKey := Some (Some test_key)\<rparr>) = Inr b)"
proof -
  let ?d = "memory_adapter 0 createMemoryStore"
  have "createMiddleware ?d no_user_opts = Inr \<lparr>bundle_opts = assign (DEFAULTS ?d) no_user_opts\<rparr>"
    using createMiddleware_fails_fast [of ?d no_user_opts]
    by (simp add: assign_def DEFAULTS_def override_def no_user_opts_def no_store_get_def memory_adapter_def)
  moreover have "createMiddleware ?d (no_user_opts\<lparr>u_store := Some None\<rparr>)
     = Inl (Error ''store required when stateless=false.'')"
    by (simp add: createMiddleware_def assign_def DEFAULTS_def override_def no_user_opts_def no_store_get_def)
  moreover have "createMiddleware ?d (no_user_opts\<lparr>u_stateless := Some True\<rparr>)
     = Inl (Error ''statelessKey required when stateless=true'')"
    by (simp add: createMiddleware_def assign_def DEFAULTS_def override_def no_user_opts_def no_store_get_def)
  moreover have "createMiddleware ?d
        (no_user_opts\<lparr>u_stateless := Some True, u_statelessKey := Some (Some (Str ''''))\<rparr>)
     = Inl (Error ''statelessKey required when stateless=true'')"
    by (simp add: createMiddleware_def assign_def DEFAULTS_def override_def no_user_opts_def no_store_get_def)
  moreover have "\<exists>b. createMiddleware ?d
        (no_user_opts\<lparr>u_stateless := Some True, u_statelessKey := Some (Some test_key)\<rparr>) = Inr b"
    using createMiddleware_fails_fast [of ?d "no_user_opts\<lparr>u_stateless := Some True, u_statelessKey := Some (Some test_key)\<rparr>"]
    by (simp add: assign_def DEFAULTS_def override_def no_user_opts_def test_key_def)
  ultimately show ?thesis by blast
qed

section \<open>The origin check\<close>

lemma req_get_absent:
  "headers req ''origin'' = None \<Longrightarrow> req_get req ''origin'' = JUndefined"
  "headers req ''referer'' = None \<Longrightarrow> headers req ''referrer'' = None
     \<Longrightarrow> req_get req ''referer'' = JUndefined"
  by (simp_all add: req_get_def header_def js_or_def to_lower_def Let_def)

lemma referrer_request_checks:
  "originCheck (stateless_opts True)"
  "http_method (referrer_request tok) = ''POST''"
  "headers (referrer_request tok) ''origin'' = None"
  "headers (referrer_request tok) ''referer'' = None"
  "origin_ok node_platform (referrer_request tok)"
  "tok \<noteq> [] \<Longrightarrow> submitted_token (stateless_opts c) (referrer_request tok) = JStr tok"
  by (simp_all add: stateless_opts_fields referrer_request_def origin_ok_def req_get_def
      header_def js_or_def js_and_def to_lower_def same_host_def node_platform_fields
      node_url_host_def submitted_token_def Let_def)

text \<open>
  C9 as stated: with \<open>originCheck\<close> enabled, a request whose method is not in
  \<open>allowedMethods\<close> and that carries neither an Origin header nor a Referer header is
  refused. A request that names its page in a header spelled \<open>Referrer\<close> carries
  neither, yet Express's \<open>req.get('referer')\<close> reads that header: the host matches,
  the check passes and the request, which has a valid token, goes to the handler.
\<close>

theorem origin_check_without_headers_counterexample:
  "originCheck (stateless_opts True)
   \<and> http_method (referrer_request token_valid) \<notin> set (allowedMethods (stateless_opts True))
   \<and> headers (referrer_request token_valid) ''origin'' = None
   \<and> headers (referrer_request token_valid) ''referer'' = None
   \<and> verify node_platform (stateless_opts True) 1700000001000 (referrer_request token_valid) = Next"
proof -
  have m: "http_method (referrer_request token_valid) \<notin> set (allowedMethods (stateless_opts True))"
    by (simp add: stateless_opts_fields referrer_request_checks)
  have t: "submitted_token (stateless_opts True) (referrer_request token_valid) = JStr token_valid"
    by (rule referrer_request_checks(6) [OF tokens_nonempty(1)])
  have "verify node_platform (stateless_opts True) 1700000001000 (referrer_request token_valid) =
           (if \<not> ok \<lparr>ok = True, payload = time_payload 1700000000000 1700003600000\<rparr>
              then Send 403 ''CSRF token invalid.''
            else if expired node_platform 1700000001000
                      (payload \<lparr>ok = True, payload = time_payload 1700000000000 1700003600000\<rparr>)
              then Send 403 ''CSRF token expired.''
            else Next)"
    by (rule verify_stateless_dispatch)
       (simp_all add: stateless_opts_fields(1,2) m t referrer_request_checks(5)
          node_verifySignedToken(1) tokens_nonempty(1))
  then have "verify node_platform (stateless_opts True) 1700000001000 (referrer_request token_valid)
      = Next"
    by (simp add: expired_time_payload)
  with m show ?thesis
    by (simp add: referrer_request_checks)
qed

text \<open>
  C9, amended. With \<open>originCheck\<close> enabled, a request whose method is not in
  \<open>allowedMethods\<close> and that carries no Origin header and no Referer header under
  either of the spellings that \<open>req.get('referer')\<close> reads, \<open>referer\<close> and
  \<open>referrer\<close>, is refused with status 403 and the origin/referrer mismatch message,
  before any token is looked for: whatever its token, body, query, session and
  cookies are, whatever the mode and the store, and at any time.
\<close>

theorem origin_check_rejects_without_headers:
  assumes "originCheck opts"
    and "http_method req \<notin> set (allowedMethods opts)"
    and "headers req ''origin'' = None"
    and "headers req ''referer'' = None" and "headers req ''referrer'' = None"
  shows "verify P opts now req = Send 403 ''CSRF: origin/referrer mismatch.''"
proof -
  have "\<not> origin_ok P req"
    using assms(3-5) by (simp add: origin_ok_def req_get_absent Let_def)
  with assms(1,2) have "verify_try P opts now req = Inr (Send 403 ''CSRF: origin/referrer mismatch.'')"
    by (simp add: verify_try_def)
  then show ?thesis by (simp add: verify_def)
qed

theorem origin_check_rejects_without_headers_witness:
  "verify node_platform (stateless_opts True) 1700000001000 (headerless_request token_valid)
     = Send 403 ''CSRF: origin/referrer mismatch.''
   \<and> verify node_platform (stateless_opts True) 1700000001000 (token_request token_valid) = Next
   \<and> verify node_platform (stateless_opts False) 1700000001000 (headerless_request token_valid) = Next"
proof -
  have "verify node_platform (stateless_opts True) 1700000001000 (headerless_request token_valid)
     = Send 403 ''CSRF: origin/referrer mismatch.''"
    by (rule origin_check_rejects_without_headers)
       (simp_all add: stateless_opts_fields headerless_request_checks example_request_methods)
  moreover have "verify node_platform (stateless_opts True) 1700000001000 (token_request token_valid) = Next"
    by (simp add: node_verify)
  moreover have "verify node_platform (stateless_opts False) 1700000001000 (headerless_request token_valid) = Next"
    using verify_stateless_dispatch [of "stateless_opts False" "headerless_request token_valid"
        node_platform _ 1700000001000, OF _ _ _ _ node_verifySignedToken(1) [folded headerless_request_checks(5) [OF tokens_nonempty(1), of False] stateless_opts_fields(2) [of False]]]
    by (simp add: stateless_opts_fields headerless_request_checks tokens_nonempty
        expired_time_payload example_request_methods)
  ultimately show ?thesis by blast
qed

section \<open>Verification of a signed token\<close>

text \<open>
  C4. \<open>verifySignedToken\<close> never raises to its caller. It returns
  \<open>{ok: false, payload: null}\<close> when the token cannot be decoded, when the separator
  byte is missing or leading, when the HMAC cannot be computed, when the MAC has the
  wrong length and when it has the wrong value; when the MAC matches it returns
  \<open>ok: true\<close> with the parsed payload, and with \<open>payload: null\<close> if the payload is not
  valid JSON. The two cases that compare MAC values assume what
  \<open>crypto.timingSafeEqual\<close> does on buffers of equal length.
\<close>

theorem verifySignedToken_never_raises:
  "(\<exists>r. verifySignedToken P t k = Inr r)
   \<and> (\<forall>e. decode t = Inl e \<longrightarrow> verifySignedToken P t k = Inr rejected)
   \<and> (\<forall>raw. decode t = Inr raw \<longrightarrow>
        (let dotIdx = lastIndexOf raw 0x2E;
             payloadStr = utf8_toString P (take (nat dotIdx) raw);
             macBuf = drop (nat (dotIdx + 1)) raw
         in (dotIdx \<le> 0 \<longrightarrow> verifySignedToken P t k = Inr rejected)
          \<and> (\<forall>e. createHmac_digest P k payloadStr = Inl e
                 \<longrightarrow> verifySignedToken P t k = Inr rejected)
          \<and> (\<forall>expected. 0 < dotIdx \<and> createHmac_digest P k payloadStr = Inr expected \<longrightarrow>
                (length macBuf \<noteq> length expected \<longrightarrow> verifySignedToken P t k = Inr rejected)
              \<and> ((\<forall>x y. length x = length y \<longrightarrow> timingSafeEqual P x y = Inr (x = y)) \<longrightarrow>
                    (length macBuf = length expected \<and> macBuf \<noteq> expected
                       \<longrightarrow> verifySignedToken P t k = Inr rejected)
                  \<and> (macBuf = expected \<and> json_parse P payloadStr = None
                       \<longrightarrow> verifySignedToken P t k = Inr \<lparr>ok = True, payload = JNull\<rparr>)
                  \<and> (\<forall>v. macBuf = expected \<and> json_parse P payloadStr = Some v
                       \<longrightarrow> verifySignedToken P t k = Inr \<lparr>ok = True, payload = v\<rparr>)))))"
proof (intro conjI allI impI)
  show "\<exists>r. verifySignedToken P t k = Inr r" by (rule verifySignedToken_total)
next
  fix e assume "decode t = Inl e"
  then show "verifySignedToken P t k = Inr rejected" by (rule verifySignedToken_decode_fails)
next
  fix raw assume dec: "decode t = Inr raw"
  show "let dotIdx = lastIndexOf raw 0x2E;
             payloadStr = utf8_toString P (take (nat dotIdx) raw);
             macBuf = drop (nat (dotIdx + 1)) raw
         in (dotIdx \<le> 0 \<longrightarrow> verifySignedToken P t k = Inr rejected)
          \<and> (\<forall>e. createHmac_digest P k payloadStr = Inl e
                 \<longrightarrow> verifySignedToken P t k = Inr rejected)
          \<and> (\<forall>expected. 0 < dotIdx \<and> createHmac_digest P k payloadStr = Inr expected \<longrightarrow>
                (length macBuf \<noteq> length expected \<longrightarrow> verifySignedToken P t k = Inr rejected)
              \<and> ((\<forall>x y. length x = length y \<longrightarrow> timingSafeEqual P x y = Inr (x = y)) \<longrightarrow>
                    (length macBuf = length expected \<and> macBuf \<noteq> expected
                       \<longrightarrow> verifySignedToken P t k = Inr rejected)
                  \<and> (macBuf = expected \<and> json_parse P payloadStr = None
                       \<longrightarrow> verifySignedToken P t k = Inr \<lparr>ok = True, payload = JNull\<rparr>)
                  \<and> (\<forall>v. macBuf = expected \<and> json_parse P payloadStr = Some v
                       \<longrightarrow> verifySignedToken P t k = Inr \<lparr>ok = True, payload = v\<rparr>)))"
    unfolding Let_def
    by (auto simp add: verifySignedToken_def verifySignedToken_try_def dec Let_def safeEqual_def)
qed

theorem verifySignedToken_never_raises_witness:
  "verifySignedToken node_platform (JNum 5) (Some test_key) = Inr rejected
   \<and> verifySignedToken node_platform (JStr ''AAAA'') (Some test_key) = Inr rejected
   \<and> verifySignedToken node_platform (JStr ''LgEC'') (Some test_key) = Inr rejected
   \<and> verifySignedToken node_platform (JStr token_valid) None = Inr rejected
   \<and> verifySignedToken node_platform (JStr ''YWIuAQID'') (Some test_key) = Inr rejected
   \<and> verifySignedToken node_platform
        (JStr ''eyJpYXQiOjE3MDAwMDAwMDAwMDAsImV4cCI6MTcwMDAwMzYwMDAwMH0uH60_XUYY1TVSstL_s4fl57ckvAcZB-Oon1SfNUMPyZ8'')
        (Some test_key) = Inr rejected
   \<and> verifySignedToken node_platform (JStr token_not_json) (Some test_key)
        = Inr \<lparr>ok = True, payload = JNull\<rparr>
   \<and> verifySignedToken node_platform (JStr token_valid) (Some test_key)
        = Inr \<lparr>ok = True, payload = time_payload 1700000000000 1700003600000\<rparr>"
proof -
  note T = verifySignedToken_never_raises
  note decoded = T [THEN conjunct2, THEN conjunct2, rule_format]
  have c1: "verifySignedToken node_platform (JNum 5) (Some test_key) = Inr rejected"
    by (rule T [THEN conjunct2, THEN conjunct1, rule_format]) simp
  have "lastIndexOf [0, 0, 0] 0x2E \<le> 0"
    by (simp add: lastIndexOf_def)
  then have c2: "verifySignedToken node_platform (JStr ''AAAA'') (Some test_key) = Inr rejected"
    by (rule decoded [OF small_tokens(1), unfolded Let_def, THEN conjunct1, rule_format])
  have "lastIndexOf [0x2E, 1, 2] 0x2E \<le> 0"
    by (simp add: lastIndexOf_def)
  then have c3: "verifySignedToken node_platform (JStr ''LgEC'') (Some test_key) = Inr rejected"
    by (rule decoded [OF small_tokens(2), unfolded Let_def, THEN conjunct1, rule_format])
  have "createHmac_digest node_platform None s = Inl TypeError" for s
    by (simp add: createHmac_digest_def)
  then have c4: "verifySignedToken node_platform (JStr token_valid) None = Inr rejected"
    by (rule decoded [OF example_tokens_decoded(1), unfolded Let_def,
          THEN conjunct2, THEN conjunct1, rule_format])
  have split: "0 < lastIndexOf (utf8 p @ 0x2E # m) 0x2E
      \<and> createHmac_digest node_platform (Some test_key)
           (utf8_toString node_platform (take (nat (lastIndexOf (utf8 p @ 0x2E # m) 0x2E)) (utf8 p @ 0x2E # m)))
          = Inr (hmac_sha256 node_platform (to_buffer test_key) (utf8 p))"
    and rest: "drop (nat (lastIndexOf (utf8 p @ 0x2E # m) 0x2E + 1)) (utf8 p @ 0x2E # m) = m"
    and str: "utf8_toString node_platform
           (take (nat (lastIndexOf (utf8 p @ 0x2E # m) 0x2E)) (utf8 p @ 0x2E # m)) = p"
    if "0x2E \<notin> set m" "p \<noteq> []" for p m
  proof -
    have idx: "lastIndexOf (utf8 p @ 0x2E # m) 0x2E = int (length (utf8 p))"
      using that(1) by (rule lastIndexOf_last)
    have tk: "take (nat (int (length (utf8 p)))) (utf8 p @ 0x2E # m) = utf8 p" by simp
    have pos: "0 < int (length (utf8 p))" using that(2) by (simp add: utf8_def)
    show s: "utf8_toString node_platform
           (take (nat (lastIndexOf (utf8 p @ 0x2E # m) 0x2E)) (utf8 p @ 0x2E # m)) = p"
      unfolding idx tk by (simp add: node_platform_fields(5) ascii_toString_utf8)
    show "0 < lastIndexOf (utf8 p @ 0x2E # m) 0x2E
      \<and> createHmac_digest node_platform (Some test_key)
           (utf8_toString node_platform (take (nat (lastIndexOf (utf8 p @ 0x2E # m) 0x2E)) (utf8 p @ 0x2E # m)))
          = Inr (hmac_sha256 node_platform (to_buffer test_key) (utf8 p))"
      unfolding s unfolding idx using pos by (simp add: createHmac_digest_def)
    show "drop (nat (lastIndexOf (utf8 p @ 0x2E # m) 0x2E + 1)) (utf8 p @ 0x2E # m) = m"
      unfolding idx by (simp add: nat_add_distrib)
  qed
  note matched = decoded [unfolded Let_def, THEN conjunct2, THEN conjunct2, rule_format]
  have n1: "0x2E \<notin> set [1, 2, 3 :: byte]" and n2: "''ab'' \<noteq> []" by simp_all
  have "length [1, 2, 3 :: byte] \<noteq> length (hmac_sha256 node_platform (to_buffer test_key) (utf8 ''ab''))"
    using node_hmac_length by simp
  then have c5: "verifySignedToken node_platform (JStr ''YWIuAQID'') (Some test_key) = Inr rejected"
    by (rule matched [OF small_tokens(3) [unfolded append_Cons append_Nil] split [OF n1 n2], THEN conjunct1,
          unfolded rest [OF n1 n2], rule_format])
  note v = macs_without_separator(1) payloads_nonempty(1)
  note z = macs_without_separator(2) payloads_nonempty(1)
  note nj = macs_without_separator(4) payloads_nonempty(4)
  have "length mac_zero_exp = length mac_valid \<and> mac_zero_exp \<noteq> mac_valid"
    by (simp add: mac_zero_exp_def mac_valid_def)
  then have c6: "verifySignedToken node_platform
        (JStr ''eyJpYXQiOjE3MDAwMDAwMDAwMDAsImV4cCI6MTcwMDAwMzYwMDAwMH0uH60_XUYY1TVSstL_s4fl57ckvAcZB-Oon1SfNUMPyZ8'')
        (Some test_key) = Inr rejected"
    by (rule matched [OF forged_token split [OF z],
          THEN conjunct2, THEN mp, OF node_timingSafeEqual_ok, THEN conjunct1,
          unfolded rest [OF z] node_hmac_values, rule_format])
  have "mac_not_json = mac_not_json \<and> json_parse node_platform payload_not_json = None"
    by (simp add: node_json_parse_values)
  then have c7: "verifySignedToken node_platform (JStr token_not_json) (Some test_key)
        = Inr \<lparr>ok = True, payload = JNull\<rparr>"
    by (rule matched [OF example_tokens_decoded(5) split [OF nj],
          THEN conjunct2, THEN mp, OF node_timingSafeEqual_ok, THEN conjunct2, THEN conjunct1,
          unfolded rest [OF nj] str [OF nj] node_hmac_values, rule_format])
  have "mac_valid = mac_valid
      \<and> json_parse node_platform payload_valid = Some (time_payload 1700000000000 1700003600000)"
    by (simp add: node_json_parse_values)
  then have c8: "verifySignedToken node_platform (JStr token_valid) (Some test_key)
        = Inr \<lparr>ok = True, payload = time_payload 1700000000000 1700003600000\<rparr>"
    by (rule matched [OF example_tokens_decoded(1) split [OF v],
          THEN conjunct2, THEN mp, OF node_timingSafeEqual_ok, THEN conjunct2, THEN conjunct2,
          unfolded rest [OF v] str [OF v] node_hmac_values, rule_format])
  from c1 c2 c3 c4 c5 c6 c7 c8 show ?thesis by (intro conjI)
qed

section \<open>The signature round-trip\<close>

text \<open>
  C1. Signature round-trip: \<open>verifySignedToken(signPayload(P, K), K)\<close> should be
  \<open>{ok: true, payload: parse(P)}\<close> for every payload and key, the boundary found
  during verification being the separator that \<open>signPayload\<close> inserted, whatever the
  32 bytes of the HMAC are. The code does not do that when the HMAC contains the byte
  \<open>0x2E\<close>: for the payload \<open>{"iat":1700000000006,"exp":1700003600006}\<close> signed with
  the key of the tests, the separator inserted is at index 41, the HMAC has \<open>0x2E\<close> at
  its index 18, \<open>lastIndexOf\<close> finds index 60, the candidate MAC is 13 bytes long, and
  the token that \<open>signPayload\<close> has just produced is refused.
\<close>

theorem sign_verify_roundtrip_fails:
  "signPayload node_platform payload_sep (Some test_key) = Inr token_sep
   \<and> json_parse node_platform payload_sep = Some (time_payload 1700000000006 1700003600006)
   \<and> length (utf8 payload_sep) = 41
   \<and> mac_sep ! 18 = 0x2E
   \<and> lastIndexOf (utf8 payload_sep @ 0x2E # mac_sep) 0x2E = 60
   \<and> length (drop 61 (utf8 payload_sep @ 0x2E # mac_sep)) = 13
   \<and> verifySignedToken node_platform (JStr token_sep) (Some test_key)
       = Inr \<lparr>ok = False, payload = JNull\<rparr>"
proof (intro conjI)
  show "signPayload node_platform payload_sep (Some test_key) = Inr token_sep"
    by (rule node_signPayload)
  show "json_parse node_platform payload_sep = Some (time_payload 1700000000006 1700003600006)"
    by (rule node_json_parse_values)
  show "length (utf8 payload_sep) = 41"
    by (simp add: utf8_def payload_sep_def)
  show "mac_sep ! 18 = 0x2E"
    by (rule mac_sep_has_separator)
  show "lastIndexOf (utf8 payload_sep @ 0x2E # mac_sep) 0x2E = 60"
    by (simp add: lastIndexOf_def utf8_def payload_sep_def mac_sep_def)
  show "length (drop 61 (utf8 payload_sep @ 0x2E # mac_sep)) = 13"
    by (simp add: utf8_def payload_sep_def mac_sep_def)
  show "verifySignedToken node_platform (JStr token_sep) (Some test_key)
       = Inr \<lparr>ok = False, payload = JNull\<rparr>"
    using node_verifySignedToken(5) by (simp add: rejected_def)
qed

section \<open>Stateless verification\<close>

text \<open>
  C2 as stated: in stateless mode, a token for which \<open>verifySignedToken\<close> returns
  \<open>{ok: true, payload: null}\<close> is not accepted. It is: the token that signs the text
  \<open>not json\<close> verifies with a null payload, and the request that carries it is passed
  on to the handler.
\<close>

theorem null_payload_not_accepted_counterexample:
  "verifySignedToken node_platform (JStr token_not_json) (Some test_key)
     = Inr \<lparr>ok = True, payload = JNull\<rparr>
   \<and> submitted_token (stateless_opts True) (token_request token_not_json) = JStr token_not_json
   \<and> verify node_platform (stateless_opts True) 1700000000000 (token_request token_not_json) = Next"
  using node_verifySignedToken(4) token_request_checks(3) [OF tokens_nonempty(5)] node_verify(4)
  by (intro conjI)

text \<open>
  C2, amended. In stateless mode, a submitted token for which \<open>verifySignedToken\<close>
  returns \<open>{ok: true, payload: null}\<close> is accepted: once the request has passed the
  method check and the origin check, \<open>verify\<close> calls the protected handler, at any
  time, because the expiry test is skipped when the payload is null.
\<close>

theorem null_payload_accepted:
  assumes "stateless opts" and "http_method req \<notin> set (allowedMethods opts)"
    and "\<not> originCheck opts \<or> origin_ok P req"
    and "truthy (submitted_token opts req)"
    and "verifySignedToken P (submitted_token opts req) (statelessKey opts)
           = Inr \<lparr>ok = True, payload = JNull\<rparr>"
  shows "verify P opts now req = Next"
  using verify_stateless_dispatch [OF assms, of now] by (simp add: expired_def)

theorem null_payload_accepted_witness:
  "stateless (stateless_opts True)
   \<and> http_method (token_request token_not_json) \<notin> set (allowedMethods (stateless_opts True))
   \<and> origin_ok node_platform (token_request token_not_json)
   \<and> truthy (submitted_token (stateless_opts True) (token_request token_not_json))
   \<and> verifySignedToken node_platform
        (submitted_token (stateless_opts True) (token_request token_not_json))
        (statelessKey (stateless_opts True)) = Inr \<lparr>ok = True, payload = JNull\<rparr>
   \<and> verify node_platform (stateless_opts True) 1700000000000 (token_request token_not_json) = Next"
proof -
  have a: "stateless (stateless_opts True)"
    and b: "http_method (token_request token_not_json) \<notin> set (allowedMethods (stateless_opts True))"
    and c: "origin_ok node_platform (token_request token_not_json)"
    by (simp_all add: stateless_opts_fields token_request_checks example_request_methods)
  have d: "truthy (submitted_token (stateless_opts True) (token_request token_not_json))"
    by (simp add: token_request_checks(3) tokens_nonempty)
  have e: "verifySignedToken node_platform
        (submitted_token (stateless_opts True) (token_request token_not_json))
        (statelessKey (stateless_opts True)) = Inr \<lparr>ok = True, payload = JNull\<rparr>"
    by (simp add: token_request_checks(3) tokens_nonempty stateless_opts_fields
        node_verifySignedToken)
  have "verify node_platform (stateless_opts True) 1700000000000 (token_request token_not_json) = Next"
    by (rule null_payload_accepted [OF a b _ d e]) (simp add: c)
  with a b c d e show ?thesis by (intro conjI)
qed

text \<open>
  A token minted with a negative TTL is refused as expired from its creation on, when
  its expiry is not the number 0 and its MAC has no separator byte in it, for times
  and TTLs in the range where the code's arithmetic is exact.
\<close>

lemma negative_ttl_refused:
  assumes tse: "\<forall>x y. length x = length y \<longrightarrow> timingSafeEqual P x y = Inr (x = y)"
    and pl: "json_stringify P (time_payload iat (iat + ttlMs)) = p" "p \<noteq> []"
      "utf8_toString P (utf8 p) = p"
      "json_parse P p = Some (time_payload iat (iat + ttlMs))"
    and nosep: "0x2E \<notin> set (hmac_sha256 P (to_buffer k) (utf8 p))"
    and neg: "ttlMs < 0" and nonzero: "iat + ttlMs \<noteq> 0" and later: "iat \<le> now"
    and exact: "\<bar>iat\<bar> \<le> 2 ^ 53" "\<bar>ttlMs\<bar> \<le> 2 ^ 53" "\<bar>iat + ttlMs\<bar> \<le> 2 ^ 53"
    and key: "statelessKey opts = Some k"
    and mint: "createStatelessToken P iat ttlMs (Some k) = Inr tok"
  shows "verify_stateless P opts now (JStr tok) = Inr (Send 403 ''CSRF token expired.'')"
proof -
  have sign: "signPayload P p (Some k) = Inr tok"
    using mint pl(1) by (simp add: createStatelessToken_def Let_def time_payload_def)
  have "verifySignedToken P (JStr tok) (Some k)
      = Inr \<lparr>ok = True, payload = time_payload iat (iat + ttlMs)\<rparr>"
    using sign_verify_ok [OF tse nosep pl(2) pl(3) sign] by (simp add: pl(4))
  moreover have "expired P now (time_payload iat (iat + ttlMs))"
    using neg nonzero later by (simp add: expired_time_payload)
  ultimately show ?thesis by (simp add: verify_stateless_def key)
qed

text \<open>
  C5. A token minted by \<open>createStatelessToken\<close> with a negative \<open>ttlMs\<close> should be
  refused as expired at any time from its creation on. The code accepts the token
  minted at \<open>Date.now() = 1700000000000\<close> with \<open>ttlMs = -1700000000000\<close>: its payload has
  \<open>exp = 0\<close>, which \<open>payload.exp && ...\<close> reads as no expiry, so the request goes
  through, at once and three years later. And it refuses the token minted at
  \<open>Date.now() = 1700000000001\<close> with \<open>ttlMs = -1000\<close> as invalid, not as expired: the
  MAC of that token has the byte \<open>0x2E\<close> in it.
\<close>

theorem negative_ttl_token_accepted:
  "createStatelessToken node_platform 1700000000000 (- 1700000000000) (Some test_key)
     = Inr token_zero_exp
   \<and> verifySignedToken node_platform (JStr token_zero_exp) (Some test_key)
     = Inr \<lparr>ok = True, payload = JObj [(''iat'', JNum 1700000000000), (''exp'', JNum 0)]\<rparr>
   \<and> verify node_platform (stateless_opts True) 1700000000000 (token_request token_zero_exp) = Next
   \<and> verify node_platform (stateless_opts True) 1800000000000 (token_request token_zero_exp) = Next
   \<and> createStatelessToken node_platform 1700000000001 (- 1000) (Some test_key)
     = Inr token_expired_sep
   \<and> verify node_platform (stateless_opts True) 1700000000001 (token_request token_expired_sep)
     = Send 403 ''CSRF token invalid.''"
proof (intro conjI)
  have "json_stringify node_platform
          (JObj [(''iat'', JNum 1700000000000), (''exp'', JNum (1700000000000 + - 1700000000000))])
        = payload_zero_exp"
    by (simp add: node_platform_fields node_json_stringify_def time_payload_def)
  then show "createStatelessToken node_platform 1700000000000 (- 1700000000000) (Some test_key)
     = Inr token_zero_exp"
    by (simp only: createStatelessToken_def Let_def node_signPayload)
  show "verifySignedToken node_platform (JStr token_zero_exp) (Some test_key)
     = Inr \<lparr>ok = True, payload = JObj [(''iat'', JNum 1700000000000), (''exp'', JNum 0)]\<rparr>"
    using node_verifySignedToken(2) by (simp add: time_payload_def)
  show "verify node_platform (stateless_opts True) 1700000000000 (token_request token_zero_exp) = Next"
    "verify node_platform (stateless_opts True) 1800000000000 (token_request token_zero_exp) = Next"
    by (simp_all add: node_verify)
  have "json_stringify node_platform
          (JObj [(''iat'', JNum 1700000000001), (''exp'', JNum (1700000000001 + - 1000))])
        = payload_expired_sep"
    by (simp add: node_platform_fields node_json_stringify_def time_payload_def)
  then show "createStatelessToken node_platform 1700000000001 (- 1000) (Some test_key)
     = Inr token_expired_sep"
    by (simp only: createStatelessToken_def Let_def node_signPayload)
  show "verify node_platform (stateless_opts True) 1700000000001 (token_request token_expired_sep)
     = Send 403 ''CSRF token invalid.''"
    by (simp add: node_verify)
qed

section \<open>The in-memory store\<close>

text \<open>What does hold: a read straight after a write, and a read with no timer due.\<close>

lemma store_get_after_set:
  "fst (store_get now k (store_set t k v ttlSec st))
     = (if ttlSec \<noteq> 0 \<and> t + ttlSec * 1000 \<noteq> 0 \<and> now > t + ttlSec * 1000 then None else Some v)"
  by (simp add: store_get_def store_set_def Let_def)

lemma store_get_expired_removes:
  assumes "entries st k = Some e" and "exp e = Some x" and "x \<noteq> 0" and "now > x"
  shows "store_get now k st = (None, st\<lparr>entries := (entries st)(k := None)\<rparr>)"
  using assms by (simp add: store_get_def)

lemma fold_delete_other:
  "k \<notin> snd ` set ts \<Longrightarrow> fold (\<lambda>(due, k') m. m(k' := None)) ts m k = m k"
  by (induction ts arbitrary: m) (auto simp add: case_prod_beta)

lemma run_timers_keeps:
  assumes "\<And>due. (due, k) \<in> set (timers st) \<Longrightarrow> now < due"
  shows "entries (run_timers now st) k = entries st k"
proof -
  have "k \<notin> snd ` set (filter (\<lambda>(due, k). due \<le> now) (timers st))"
    using assms by force
  then show ?thesis by (simp add: run_timers_def fold_delete_other)
qed

lemma fold_delete_hit:
  "k \<in> snd ` set ts \<Longrightarrow> fold (\<lambda>(due, k') m. m(k' := None)) ts m k = None"
proof (induction ts arbitrary: m)
  case Nil
  then show ?case by simp
next
  case (Cons t ts)
  let ?f = "\<lambda>(due, k') m. m(k' := None)"
  have step: "fold ?f (t # ts) m k = fold ?f ts (?f t m) k" by simp
  show ?case
  proof (cases "k \<in> snd ` set ts")
    case True
    then show ?thesis unfolding step by (rule Cons.IH)
  next
    case False
    with Cons.prems have "snd t = k" by auto
    then have "?f t m k = None" by (simp add: case_prod_beta)
    then show ?thesis unfolding step fold_delete_other [OF False] .
  qed
qed

text \<open>A timer that is due deletes the key, whoever wrote the entry that is there.\<close>

lemma run_timers_deletes:
  assumes "(due, k) \<in> set (timers st)" and "due \<le> now"
  shows "entries (run_timers now st) k = None"
proof -
  have "k \<in> snd ` set (filter (\<lambda>(due, k). due \<le> now) (timers st))"
    using assms by force
  then show ?thesis by (simp add: run_timers_def fold_delete_hit)
qed

text \<open>
  C3. After the most recent \<open>set(key, val, ttl)\<close>, \<open>get(key)\<close> should return \<open>val\<close>
  until that write's expiry, no cleanup scheduled by an earlier write of the key
  removing the entry before. The code does not do that. \<open>set('k', 'v1', 1)\<close> at time 0
  schedules a deletion of \<open>k\<close> at 1100 ms; \<open>set('k', 'v2', 10)\<close> at 500 ms writes an
  entry that expires at 10500 ms. At 1000 ms \<open>get('k')\<close> is \<open>v2\<close>; at 1200 ms the
  first write's timer has run and \<open>get('k')\<close> is absent. The same happens when the
  second write has \<open>ttl = 0\<close>, which is to say no expiry.
\<close>

theorem stale_timer_removes_entry:
  "fst (store_get 1000 ''k'' (run_timers 1000 (store_set 500 ''k'' ''v2'' 10
         (run_timers 500 (store_set 0 ''k'' ''v1'' 1 createMemoryStore))))) = Some ''v2''
   \<and> entries (store_set 500 ''k'' ''v2'' 10
         (run_timers 500 (store_set 0 ''k'' ''v1'' 1 createMemoryStore))) ''k''
       = Some \<lparr>val = ''v2'', exp = Some 10500\<rparr>
   \<and> fst (store_get 1200 ''k'' (run_timers 1200 (store_set 500 ''k'' ''v2'' 10
         (run_timers 500 (store_set 0 ''k'' ''v1'' 1 createMemoryStore))))) = None
   \<and> fst (store_get 1200 ''k'' (run_timers 1200 (store_set 500 ''k'' ''v2'' 0
         (run_timers 500 (store_set 0 ''k'' ''v1'' 1 createMemoryStore))))) = None"
  by (simp add: store_get_def store_set_def run_timers_def createMemoryStore_def
      setTimeout_delay_def Let_def)

text \<open>
  A single write is enough when the TTL is 30 days: the delay of the cleanup timer is
  above \<open>2^31 - 1\<close> ms, Node sets it to 1 ms, and the entry is gone 1 ms after it was
  written.
\<close>

lemma long_ttl_removed_at_once:
  "fst (store_get 1 ''k'' (run_timers 1 (store_set 0 ''k'' ''v'' 2592000 createMemoryStore))) = None
   \<and> fst (store_get 1 ''k'' (store_set 0 ''k'' ''v'' 2592000 createMemoryStore)) = Some ''v''"
  by (simp add: store_get_def store_set_def run_timers_def createMemoryStore_def
      setTimeout_delay_def Let_def)

end
